theory Spec2Isabelle
  imports Main
begin

section \<open>Data model (backend/models.py)\<close>

text \<open>
  The two string enumerations of \<^verbatim>\<open>models.py\<close>. Each member has the string value
  that is written to Redis; building a member from a string (\<^verbatim>\<open>ParserType(x)\<close>)
  raises \<^verbatim>\<open>ValueError\<close> on every other input, also on \<^verbatim>\<open>None\<close>.
\<close>

datatype ParserType = PYPDF | GEMINI

datatype ProcessingStatus = PENDING | PROCESSING | COMPLETED | FAILED

fun ParserType_value :: "ParserType \<Rightarrow> string" where
  "ParserType_value PYPDF = ''pypdf''"
| "ParserType_value GEMINI = ''gemini''"

fun ProcessingStatus_value :: "ProcessingStatus \<Rightarrow> string" where
  "ProcessingStatus_value PENDING = ''pending''"
| "ProcessingStatus_value PROCESSING = ''processing''"
| "ProcessingStatus_value COMPLETED = ''completed''"
| "ProcessingStatus_value FAILED = ''failed''"

definition ParserType_of :: "string option \<Rightarrow> ParserType option" where
  "ParserType_of x =
     (if x = Some ''pypdf'' then Some PYPDF
      else if x = Some ''gemini'' then Some GEMINI
      else None)"

definition ProcessingStatus_of :: "string option \<Rightarrow> ProcessingStatus option" where
  "ProcessingStatus_of x =
     (if x = Some ''pending'' then Some PENDING
      else if x = Some ''processing'' then Some PROCESSING
      else if x = Some ''completed'' then Some COMPLETED
      else if x = Some ''failed'' then Some FAILED
      else None)"

text \<open>\<^verbatim>\<open>class ProcessingResult(BaseModel)\<close>: five required fields, four optional ones.\<close>

record ProcessingResult =
  job_id :: string
  filename :: string
  parser :: ParserType
  status :: ProcessingStatus
  content :: "string option"
  summary :: "string option"
  error :: "string option"
  created_at :: string
  completed_at :: "string option"

text \<open>
  Exceptions are values: the class that decides which \<^verbatim>\<open>except\<close> clause catches
  it, and the message \<^verbatim>\<open>str(e)\<close>.
\<close>

datatype exn_class =
    RedisError | ValidationError | ValueError | TypeError | Timeout | PlainException

datatype exn = Exn exn_class string

fun str_exn :: "exn \<Rightarrow> string" where
  "str_exn (Exn c m) = m"

subsection \<open>The JSON form of a record\<close>

text \<open>
  \<^verbatim>\<open>result.dict(exclude_none=True)\<close> is the dictionary of the fields that are not
  \<^verbatim>\<open>None\<close>, in declaration order, the enumerations by their string values. A JSON
  object whose members are all strings is an association list. \<^verbatim>\<open>json.dumps\<close> and
  \<^verbatim>\<open>json.loads\<close> belong to the standard library; the store of the model keeps the
  object that \<^verbatim>\<open>json.loads\<close> gives back for the text \<^verbatim>\<open>json.dumps\<close> wrote.
\<close>

type_synonym json_object = "(string \<times> string) list"

definition optional_member :: "string \<Rightarrow> string option \<Rightarrow> json_object" where
  "optional_member k v = (case v of None \<Rightarrow> [] | Some x \<Rightarrow> [(k, x)])"

definition dict_exclude_none :: "ProcessingResult \<Rightarrow> json_object" where
  "dict_exclude_none r =
     [(''job_id'', job_id r),
      (''filename'', filename r),
      (''parser'', ParserType_value (parser r)),
      (''status'', ProcessingStatus_value (status r))]
     @ optional_member ''content'' (content r)
     @ optional_member ''summary'' (summary r)
     @ optional_member ''error'' (error r)
     @ [(''created_at'', created_at r)]
     @ optional_member ''completed_at'' (completed_at r)"

text \<open>
  \<^verbatim>\<open>ProcessingResult(**d)\<close>: pydantic wants the five required members, turns the
  two enumeration strings into members, fills a missing optional field with
  \<^verbatim>\<open>None\<close>, and raises \<^verbatim>\<open>ValidationError\<close> otherwise. The message of that
  error, which lists the fields at fault, is stood for by one sentence.
\<close>

definition ProcessingResult_of_dict :: "json_object \<Rightarrow> exn + ProcessingResult" where
  "ProcessingResult_of_dict d =
     (case map_of d ''job_id'' of
        None \<Rightarrow> Inl (Exn ValidationError ''validation error for ProcessingResult'')
      | Some j \<Rightarrow>
     (case map_of d ''filename'' of
        None \<Rightarrow> Inl (Exn ValidationError ''validation error for ProcessingResult'')
      | Some f \<Rightarrow>
     (case ParserType_of (map_of d ''parser'') of
        None \<Rightarrow> Inl (Exn ValidationError ''validation error for ProcessingResult'')
      | Some p \<Rightarrow>
     (case ProcessingStatus_of (map_of d ''status'') of
        None \<Rightarrow> Inl (Exn ValidationError ''validation error for ProcessingResult'')
      | Some s \<Rightarrow>
     (case map_of d ''created_at'' of
        None \<Rightarrow> Inl (Exn ValidationError ''validation error for ProcessingResult'')
      | Some c \<Rightarrow>
          Inr \<lparr>job_id = j, filename = f, parser = p, status = s,
               content = map_of d ''content'', summary = map_of d ''summary'',
               error = map_of d ''error'', created_at = c,
               completed_at = map_of d ''completed_at''\<rparr>)))))"

section \<open>Redis (backend/services.py, RedisService)\<close>

text \<open>
  What the service keeps in Redis. The text client and the binary client talk to one
  database; the two families of keys the service uses (the prefixes \<^verbatim>\<open>result:\<close> and
  \<^verbatim>\<open>pdf:\<close>) never meet and are kept in two maps. A
  value written with \<^verbatim>\<open>ex=3600\<close> carries the second at which Redis drops it, and is
  gone for every read at or after that second. The stream is the list of its entries
  (id and fields), \<open>delivered\<close> counts the entries \<^verbatim>\<open>XREADGROUP\<close> with \<^verbatim>\<open>>\<close> has
  handed out, \<open>acked\<close> holds the ids \<^verbatim>\<open>XACK\<close> was given. \<open>result_writes\<close> is
  the history of the records written under status keys, oldest first.
\<close>

record redis =
  text_db :: "string \<rightharpoonup> json_object \<times> nat"
  binary_db :: "string \<rightharpoonup> string \<times> nat"
  stream :: "(string \<times> json_object) list"
  delivered :: nat
  acked :: "string set"
  result_writes :: "ProcessingResult list"

definition empty_redis :: redis where
  "empty_redis = \<lparr>text_db = Map.empty, binary_db = Map.empty, stream = [],
     delivered = 0, acked = {}, result_writes = []\<rparr>"

definition result_key :: "string \<Rightarrow> string" where
  "result_key jid = ''result:'' @ jid"

definition pdf_key_of :: "string \<Rightarrow> string" where
  "pdf_key_of jid = ''pdf:'' @ jid"

definition ttl :: nat where
  "ttl = 3600"

definition live :: "nat \<Rightarrow> ('a \<times> nat) option \<Rightarrow> 'a option" where
  "live now v = (case v of None \<Rightarrow> None
                 | Some (x, expiry) \<Rightarrow> if now < expiry then Some x else None)"

text \<open>
  Every Redis command can raise (connection lost, server busy). A command is given its
  fault: \<open>None\<close> when Redis answers, \<open>Some m\<close> when the client raises a Redis error
  with message \<open>m\<close> and the command has no effect.
\<close>

definition save_result :: "string option \<Rightarrow> nat \<Rightarrow> ProcessingResult \<Rightarrow> redis \<Rightarrow> exn + redis" where
  "save_result fault now r s =
     (case fault of
        Some m \<Rightarrow> Inl (Exn RedisError m)
      | None \<Rightarrow>
          Inr (s\<lparr>text_db := (text_db s)(result_key (job_id r) \<mapsto> (dict_exclude_none r, now + ttl)),
                 result_writes := result_writes s @ [r]\<rparr>))"

definition get_result ::
  "string option \<Rightarrow> nat \<Rightarrow> string \<Rightarrow> redis \<Rightarrow> exn + ProcessingResult option" where
  "get_result fault now jid s =
     (case fault of
        Some m \<Rightarrow> Inl (Exn RedisError m)
      | None \<Rightarrow>
          (case live now (text_db s (result_key jid)) of
             None \<Rightarrow> Inr None
           | Some d \<Rightarrow>
               (case ProcessingResult_of_dict d of
                  Inl e \<Rightarrow> Inl e
                | Inr r \<Rightarrow> Inr (Some r))))"

text \<open>
  \<^verbatim>\<open>get_pdf_data(pdf_key)\<close>; the key comes from \<^verbatim>\<open>data.get('pdf_key')\<close> and is
  \<^verbatim>\<open>None\<close> when the entry has no such field, which the client refuses.
\<close>

definition missing_key_message :: string where
  "missing_key_message =
     ''Invalid input of type: '' @ [CHR 0x27] @ ''NoneType'' @ [CHR 0x27]
       @ ''. Convert to a bytes, string, int or float first.''"

definition get_pdf_data ::
  "string option \<Rightarrow> nat \<Rightarrow> string option \<Rightarrow> redis \<Rightarrow> exn + string option" where
  "get_pdf_data fault now pdf_key s =
     (case fault of
        Some m \<Rightarrow> Inl (Exn RedisError m)
      | None \<Rightarrow>
          (case pdf_key of
             None \<Rightarrow> Inl (Exn RedisError missing_key_message)
           | Some k \<Rightarrow> Inr (live now (binary_db s k))))"

definition acknowledge_message :: "string option \<Rightarrow> string \<Rightarrow> redis \<Rightarrow> exn + redis" where
  "acknowledge_message fault message_id s =
     (case fault of
        Some m \<Rightarrow> Inl (Exn RedisError m)
      | None \<Rightarrow> Inr (s\<lparr>acked := insert message_id (acked s)\<rparr>))"

text \<open>
  \<^verbatim>\<open>add_job_to_queue\<close>: three commands in this order (payload, stream entry, initial
  status). What the call takes from outside: the faults of the three commands, the id
  Redis gives the new entry, the clock in seconds and the two \<^verbatim>\<open>utcnow().isoformat()\<close>
  strings. An exception leaves the effects of the commands before it.
\<close>

record enqueue_env =
  q_fault_set :: "string option"
  q_fault_xadd :: "string option"
  q_fault_save :: "string option"
  q_message_id :: string
  q_now :: nat
  q_timestamp :: string
  q_created_at :: string

definition add_job_to_queue ::
  "enqueue_env \<Rightarrow> string \<Rightarrow> string \<Rightarrow> string \<Rightarrow> ParserType \<Rightarrow> redis \<Rightarrow> (exn + string) \<times> redis" where
  "add_job_to_queue env jid fname pdf_data p s =
     (case q_fault_set env of
        Some m \<Rightarrow> (Inl (Exn RedisError m), s)
      | None \<Rightarrow>
          (let pdf_key = pdf_key_of jid;
               s1 = s\<lparr>binary_db := (binary_db s)(pdf_key \<mapsto> (pdf_data, q_now env + ttl))\<rparr>
           in case q_fault_xadd env of
                Some m \<Rightarrow> (Inl (Exn RedisError m), s1)
              | None \<Rightarrow>
                  (let s2 = s1\<lparr>stream := stream s1 @
                              [(q_message_id env,
                                [(''job_id'', jid), (''filename'', fname),
                                 (''parser'', ParserType_value p), (''pdf_key'', pdf_key),
                                 (''timestamp'', q_timestamp env)])]\<rparr>;
                       result = \<lparr>job_id = jid, filename = fname, parser = p,
                                 status = PENDING, content = None, summary = None,
                                 error = None, created_at = q_created_at env,
                                 completed_at = None\<rparr>
                   in case save_result (q_fault_save env) (q_now env) result s2 of
                        Inl e \<Rightarrow> (Inl e, s2)
                      | Inr s3 \<Rightarrow> (Inr (q_message_id env), s3))))"

section \<open>Extraction (backend/services.py, PDFProcessingService)\<close>

text \<open>
  Python's \<^verbatim>\<open>str.strip()\<close> and the decimal \<^verbatim>\<open>str(n)\<close> of an f-string. A
  \<open>char\<close> stands for a code point below 256; \<open>py_isspace\<close> lists the white space
  among them (\<^verbatim>\<open>str.isspace\<close>).
\<close>

definition py_isspace :: "char \<Rightarrow> bool" where
  "py_isspace c = (c \<in> set [CHR 0x20, CHR 0x09, CHR 0x0A, CHR 0x0B, CHR 0x0C, CHR 0x0D,
                              CHR 0x1C, CHR 0x1D, CHR 0x1E, CHR 0x1F, CHR 0x85, CHR 0xA0])"

definition py_strip :: "string \<Rightarrow> string" where
  "py_strip s = rev (dropWhile py_isspace (rev (dropWhile py_isspace s)))"

definition digit_char :: "nat \<Rightarrow> char" where
  "digit_char d = ''0123456789'' ! d"

function str_nat :: "nat \<Rightarrow> string" where
  "str_nat n = (if n < 10 then [digit_char n] else str_nat (n div 10) @ [digit_char (n mod 10)])"
  by pat_completeness auto
termination
  by (relation "measure id") auto

declare str_nat.simps [simp del]

text \<open>
  One pass of the body of the \<^verbatim>\<open>for attempt in range(1, retries + 1)\<close> loop of
  \<^verbatim>\<open>process_with_gemini\<close> talks to the remote service (upload, wait for the file,
  generate). What comes back decides the pass: a \<^verbatim>\<open>requests.exceptions.Timeout\<close>, any
  other exception, or the text of the response.
\<close>

datatype attempt = TimedOut string | Raised exn | Generated string

definition timed_out_message :: "nat \<Rightarrow> string" where
  "timed_out_message retries =
     ''Processing timed out after '' @ str_nat retries
       @ '' attempts. The PDF may be too large or complex.''"

definition no_text_message :: string where
  "no_text_message = ''No text could be extracted from the PDF.''"

text \<open>
  The loop, counted down on the passes that are left; \<open>k\<close> is \<^verbatim>\<open>attempt\<close>. A loop
  that runs out without returning lets the function return \<^verbatim>\<open>None\<close>.
\<close>

fun gemini_attempts :: "(nat \<Rightarrow> attempt) \<Rightarrow> nat \<Rightarrow> nat \<Rightarrow> nat \<Rightarrow> exn + string option" where
  "gemini_attempts upstream retries k 0 = Inr None"
| "gemini_attempts upstream retries k (Suc left) =
     (case upstream k of
        Generated text \<Rightarrow>
          (if text = [] \<or> length (py_strip text) < 10 then Inr (Some no_text_message)
           else Inr (Some text))
      | Raised e \<Rightarrow> Inl e
      | TimedOut m \<Rightarrow>
          (if k = retries then Inr (Some (timed_out_message retries))
           else gemini_attempts upstream retries (Suc k) left))"

definition process_with_gemini :: "(nat \<Rightarrow> attempt) \<Rightarrow> nat \<Rightarrow> exn + string option" where
  "process_with_gemini upstream retries = gemini_attempts upstream retries 1 retries"

text \<open>
  \<^verbatim>\<open>extract_with_pypdf\<close>: the page loop (text layer, OCR) either gives the joined text
  or raises; the function wraps every exception.
  \<^verbatim>\<open>generate_summary\<close>: short contents get a fixed sentence without a remote call;
  otherwise the remote call raises or answers, an empty answer raises, and every
  exception is wrapped.
\<close>

definition extract_with_pypdf :: "exn + string \<Rightarrow> exn + string" where
  "extract_with_pypdf pages =
     (case pages of
        Inl e \<Rightarrow> Inl (Exn PlainException (''PyPDF extraction failed: '' @ str_exn e))
      | Inr text \<Rightarrow> Inr text)"

definition generate_summary :: "exn + string \<Rightarrow> string \<Rightarrow> exn + string" where
  "generate_summary answer text =
     (if length (py_strip text) < 100
      then Inr ''Document is too short to summarize effectively.''
      else (case answer of
              Inl e \<Rightarrow> Inl (Exn PlainException (''Summary generation failed: '' @ str_exn e))
            | Inr t \<Rightarrow>
                if t = []
                then Inl (Exn PlainException
                           (''Summary generation failed: '' @ ''Gemini returned empty summary''))
                else Inr t))"

text \<open>What one call of \<^verbatim>\<open>process_document\<close> meets outside the program.\<close>

record upstream =
  pypdf_pages :: "exn + string"
  summary_answer :: "exn + string"
  content_attempts :: "nat \<Rightarrow> attempt"
  summary_attempts :: "nat \<Rightarrow> attempt"

definition process_document ::
  "upstream \<Rightarrow> string \<Rightarrow> ParserType \<Rightarrow> string option \<Rightarrow> exn + (string option \<times> string option)" where
  "process_document up pdf_data p fname =
     (case p of
        PYPDF \<Rightarrow>
          (case extract_with_pypdf (pypdf_pages up) of
             Inl e \<Rightarrow> Inl e
           | Inr text \<Rightarrow>
               (case generate_summary (summary_answer up) text of
                  Inl e \<Rightarrow> Inl e
                | Inr sm \<Rightarrow> Inr (Some text, Some sm)))
      | GEMINI \<Rightarrow>
          (case process_with_gemini (content_attempts up) 3 of
             Inl e \<Rightarrow> Inl e
           | Inr c \<Rightarrow>
               (case process_with_gemini (summary_attempts up) 3 of
                  Inl e \<Rightarrow> Inl e
                | Inr sm \<Rightarrow> Inr (c, sm))))"

section \<open>The worker (backend/worker.py)\<close>

text \<open>
  What one call of \<^verbatim>\<open>process_message\<close> meets outside the program: the fault of
  each of its Redis commands, in the order of the source (three before the extraction,
  two after it, three in the handler), the clock when the entry arrives and the clock
  once the extraction has returned or failed (seconds, and the
  \<^verbatim>\<open>datetime.now(timezone.utc).isoformat()\<close> string), and the extraction's surroundings.
  The worker is not the only client of Redis: \<open>w_meanwhile\<close> is what the other clients
  (the producer above all, whose initial status write follows its \<^verbatim>\<open>XADD\<close>) did to
  Redis between the worker's payload fetch and its next command. The extraction, the one
  step of a call that takes time, falls in that interval.
\<close>

record work_env =
  w_fault_get :: "string option"
  w_fault_processing :: "string option"
  w_fault_pdf :: "string option"
  w_fault_completed :: "string option"
  w_fault_ack :: "string option"
  h_fault_get :: "string option"
  h_fault_failed :: "string option"
  h_fault_ack :: "string option"
  w_now :: nat
  w_later :: nat
  w_later_iso :: string
  w_upstream :: upstream
  w_meanwhile :: "redis \<Rightarrow> redis"

text \<open>An f-string prints \<^verbatim>\<open>None\<close> as the word.\<close>

definition format_opt :: "string option \<Rightarrow> string" where
  "format_opt x = (case x of None \<Rightarrow> ''None'' | Some v \<Rightarrow> v)"

text \<open>
  \<^verbatim>\<open>repr\<close> of a string, which the message of the enumeration's \<^verbatim>\<open>ValueError\<close>
  shows (\<^verbatim>\<open>%r\<close>): between apostrophes, or between double quotes when the string has an
  apostrophe and no double quote; the quote and the backslash are escaped, tab, line
  feed and carriage return are written \<^verbatim>\<open>\t\<close>, \<^verbatim>\<open>\n\<close>, \<^verbatim>\<open>\r\<close>, and every other
  code point that does not print (below 32, from 127 to 160, and 173) as \<^verbatim>\<open>\x\<close> and
  two hexadecimal digits.
\<close>

definition hex_digit_char :: "nat \<Rightarrow> char" where
  "hex_digit_char d = ''0123456789abcdef'' ! d"

definition repr_char :: "char \<Rightarrow> char \<Rightarrow> string" where
  "repr_char q c =
     (if c = q \<or> c = CHR 0x5C then [CHR 0x5C, c]
      else if c = CHR 0x09 then [CHR 0x5C, CHR ''t'']
      else if c = CHR 0x0A then [CHR 0x5C, CHR ''n'']
      else if c = CHR 0x0D then [CHR 0x5C, CHR ''r'']
      else if (of_char c :: nat) < 32 \<or> (127 \<le> (of_char c :: nat) \<and> (of_char c :: nat) \<le> 160)
              \<or> (of_char c :: nat) = 173
      then [CHR 0x5C, CHR ''x'', hex_digit_char (of_char c div 16),
            hex_digit_char (of_char c mod 16)]
      else [c])"

definition py_repr :: "string option \<Rightarrow> string" where
  "py_repr x =
     (case x of
        None \<Rightarrow> ''None''
      | Some v \<Rightarrow>
          (let q = (if CHR 0x27 \<in> set v \<and> CHR 0x22 \<notin> set v then CHR 0x22 else CHR 0x27)
           in [q] @ concat (map (repr_char q) v) @ [q]))"

text \<open>
  The body of the \<^verbatim>\<open>try\<close>: the exception it raised, if any, and Redis as it stands
  then. The messages of pydantic's \<^verbatim>\<open>ValidationError\<close> and of \<^verbatim>\<open>len(None)\<close> are
  stood for by one sentence each.
\<close>

definition process_try ::
  "work_env \<Rightarrow> string \<Rightarrow> string option \<Rightarrow> string option \<Rightarrow> ParserType \<Rightarrow> string option
     \<Rightarrow> redis \<Rightarrow> exn option \<times> redis" where
  "process_try env message_id jid fname p pdf_key s =
     (case get_result (w_fault_get env) (w_now env) (format_opt jid) s of
        Inl e \<Rightarrow> (Some e, s)
      | Inr result \<Rightarrow>
     (case (case result of
              None \<Rightarrow> Inr s
            | Some r \<Rightarrow> save_result (w_fault_processing env) (w_now env)
                          (r\<lparr>status := PROCESSING\<rparr>) s) of
        Inl e \<Rightarrow> (Some e, s)
      | Inr s1 \<Rightarrow>
     (case get_pdf_data (w_fault_pdf env) (w_now env) pdf_key s1 of
        Inl e \<Rightarrow> (Some e, w_meanwhile env s1)
      | Inr None \<Rightarrow>
          (Some (Exn PlainException ''PDF data not found in Redis''), w_meanwhile env s1)
      | Inr (Some pdf_data) \<Rightarrow>
          if pdf_data = []
          then (Some (Exn PlainException ''PDF data not found in Redis''), w_meanwhile env s1)
          else
     (case process_document (w_upstream env) pdf_data p fname of
        Inl e \<Rightarrow> (Some e, w_meanwhile env s1)
      | Inr (c, None) \<Rightarrow>
          (Some (Exn TypeError ''object of type NoneType has no len()''), w_meanwhile env s1)
      | Inr (c, Some sm) \<Rightarrow>
     (case (jid, fname) of
        (Some j, Some f) \<Rightarrow>
          (case save_result (w_fault_completed env) (w_later env)
                  \<lparr>job_id = j, filename = f, parser = p, status = COMPLETED,
                   content = c, summary = Some sm, error = None,
                   created_at = (case result of Some r \<Rightarrow> created_at r
                                 | None \<Rightarrow> w_later_iso env),
                   completed_at = Some (w_later_iso env)\<rparr> (w_meanwhile env s1) of
             Inl e \<Rightarrow> (Some e, w_meanwhile env s1)
           | Inr s2 \<Rightarrow>
               (case acknowledge_message (w_fault_ack env) message_id s2 of
                  Inl e \<Rightarrow> (Some e, s2)
                | Inr s3 \<Rightarrow> (None, s3)))
      | _ \<Rightarrow> (Some (Exn ValidationError ''validation error for ProcessingResult''),
                w_meanwhile env s1))))))"

text \<open>The \<^verbatim>\<open>except Exception as e\<close> block.\<close>

definition process_except ::
  "work_env \<Rightarrow> string \<Rightarrow> string option \<Rightarrow> exn \<Rightarrow> redis \<Rightarrow> exn option \<times> redis" where
  "process_except env message_id jid e s =
     (case get_result (h_fault_get env) (w_later env) (format_opt jid) s of
        Inl e' \<Rightarrow> (Some e', s)
      | Inr result \<Rightarrow>
     (case (case result of
              None \<Rightarrow> Inr s
            | Some r \<Rightarrow> save_result (h_fault_failed env) (w_later env)
                          (r\<lparr>status := FAILED, error := Some (str_exn e),
                             completed_at := Some (w_later_iso env)\<rparr>) s) of
        Inl e' \<Rightarrow> (Some e', s)
      | Inr s1 \<Rightarrow>
     (case acknowledge_message (h_fault_ack env) message_id s1 of
        Inl e' \<Rightarrow> (Some e', s1)
      | Inr s2 \<Rightarrow> (None, s2))))"

text \<open>
  \<^verbatim>\<open>process_message\<close>: the four fields are read and the parser is built before
  the \<^verbatim>\<open>try\<close>, so a \<^verbatim>\<open>ValueError\<close> there leaves the function at once.
\<close>

definition process_message ::
  "work_env \<Rightarrow> string \<Rightarrow> json_object \<Rightarrow> redis \<Rightarrow> exn option \<times> redis" where
  "process_message env message_id data s =
     (let jid = map_of data ''job_id'';
          fname = map_of data ''filename'';
          pdf_key = map_of data ''pdf_key''
      in case ParserType_of (map_of data ''parser'') of
           None \<Rightarrow> (Some (Exn ValueError
                            (py_repr (map_of data ''parser'') @ '' is not a valid ParserType'')), s)
         | Some p \<Rightarrow>
             (case process_try env message_id jid fname p pdf_key s of
                (None, s1) \<Rightarrow> (None, s1)
              | (Some e, s1) \<Rightarrow> process_except env message_id jid e s1))"

text \<open>
  Two ways of speaking about a call: \<open>fault_free\<close> says Redis answered every command,
  and \<open>fetch_and_extract\<close> is the outcome of steps 3 and 4 of the call (payload
  fetch, then extraction), as \<open>process_try\<close> runs them.
\<close>

definition fault_free :: "work_env \<Rightarrow> bool" where
  "fault_free env =
     (w_fault_get env = None \<and> w_fault_processing env = None \<and> w_fault_pdf env = None \<and>
      w_fault_completed env = None \<and> w_fault_ack env = None \<and> h_fault_get env = None \<and>
      h_fault_failed env = None \<and> h_fault_ack env = None)"

definition fetch_and_extract ::
  "work_env \<Rightarrow> string option \<Rightarrow> ParserType \<Rightarrow> string option \<Rightarrow> redis
     \<Rightarrow> exn + (string option \<times> string option)" where
  "fetch_and_extract env pdf_key p fname s =
     (case get_pdf_data (w_fault_pdf env) (w_now env) pdf_key s of
        Inl e \<Rightarrow> Inl e
      | Inr None \<Rightarrow> Inl (Exn PlainException ''PDF data not found in Redis'')
      | Inr (Some pdf_data) \<Rightarrow>
          if pdf_data = [] then Inl (Exn PlainException ''PDF data not found in Redis'')
          else process_document (w_upstream env) pdf_data p fname)"



text \<open>
  The two groups of fields of a status record: a completed record carries content and
  summary and no error, a failed one an error and neither content nor summary, a
  record that is not terminal none of the three.
\<close>

definition one_group :: "ProcessingResult \<Rightarrow> bool" where
  "one_group r =
     (case status r of
        COMPLETED \<Rightarrow> content r \<noteq> None \<and> summary r \<noteq> None \<and> error r = None
      | FAILED \<Rightarrow> error r \<noteq> None \<and> content r = None \<and> summary r = None
      | _ \<Rightarrow> content r = None \<and> summary r = None \<and> error r = None)"

text \<open>
  \<open>fresh_for j s\<close>: the status key of job \<open>j\<close> is empty or holds a pending
  record of that job with no content, summary or error, as the producer leaves it.
  \<open>marked env r s\<close>: Redis after the worker has written \<open>r\<close> as processing.
\<close>

definition fresh_for :: "string \<Rightarrow> redis \<Rightarrow> bool" where
  "fresh_for j s =
     (case text_db s (result_key j) of
        None \<Rightarrow> True
      | Some (d, t) \<Rightarrow>
          (\<exists>r. d = dict_exclude_none r \<and> job_id r = j \<and> status r = PENDING \<and> one_group r))"

definition marked :: "work_env \<Rightarrow> ProcessingResult \<Rightarrow> redis \<Rightarrow> redis" where
  "marked env r s =
     s\<lparr>text_db := (text_db s)(result_key (job_id r) \<mapsto>
                     (dict_exclude_none (r\<lparr>status := PROCESSING\<rparr>), w_now env + ttl)),
       result_writes := result_writes s @ [r\<lparr>status := PROCESSING\<rparr>]\<rparr>"

section \<open>The status query (backend/main.py, get_job_status)\<close>

datatype HTTPException = HTTPException nat string

record JobStatusResponse =
  resp_job_id :: string
  resp_filename :: string
  resp_parser :: ParserType
  resp_status :: ProcessingStatus
  resp_content :: "string option"
  resp_summary :: "string option"
  resp_error :: "string option"
  resp_progress :: "string option"

fun progress_of :: "ProcessingStatus \<Rightarrow> string" where
  "progress_of PENDING = ''Waiting in queue...''"
| "progress_of PROCESSING =
     ''Processing document... This may take several minutes for large PDFs.''"
| "progress_of COMPLETED = ''Processing complete!''"
| "progress_of FAILED = ''Processing failed''"

definition response_of :: "ProcessingResult \<Rightarrow> JobStatusResponse" where
  "response_of r =
     \<lparr>resp_job_id = job_id r, resp_filename = filename r, resp_parser = parser r,
      resp_status = status r, resp_content = content r, resp_summary = summary r,
      resp_error = error r, resp_progress = Some (progress_of (status r))\<rparr>"

definition terminal :: "ProcessingStatus \<Rightarrow> bool" where
  "terminal st = (st = COMPLETED \<or> st = FAILED)"

text \<open>
  The polling loop. The query runs beside the producer and the worker, so what it reads
  is Redis as it stands at the second of each read: \<open>store t\<close>, with the fault
  \<open>faults t\<close> of the read made then. \<open>start\<close> is \<^verbatim>\<open>start_time\<close>, \<open>now\<close> the clock
  at the loop's test, \<open>result\<close> the variable of that name, \<open>reads\<close> the number of
  \<^verbatim>\<open>get_result\<close> calls made so far. A pass that goes round again has slept
  \<^verbatim>\<open>poll_interval = 2\<close> seconds; \<^verbatim>\<open>timeout = 300\<close>.
\<close>

function poll ::
  "(nat \<Rightarrow> string option) \<Rightarrow> (nat \<Rightarrow> redis) \<Rightarrow> string \<Rightarrow> nat \<Rightarrow> nat \<Rightarrow> ProcessingResult option
     \<Rightarrow> nat \<Rightarrow> (HTTPException + ProcessingResult option) \<times> nat" where
  "poll faults store jid start now result reads =
     (if now - start < 300 then
        (case get_result (faults now) now jid (store now) of
           Inl e \<Rightarrow> (Inl (HTTPException 500 (''Error checking job status: '' @ str_exn e)),
                     Suc reads)
         | Inr None \<Rightarrow> (Inl (HTTPException 404 ''Job not found''), Suc reads)
         | Inr (Some r) \<Rightarrow>
             if terminal (status r) then (Inr (Some r), Suc reads)
             else poll faults store jid start (now + 2) (Some r) (Suc reads))
      else (Inr result, reads))"
  by pat_completeness auto
termination
  by (relation "measure (\<lambda>(faults, store, jid, start, now, result, reads). start + 300 - now)")
     auto

declare poll.simps [simp del]

text \<open>
  \<^verbatim>\<open>uuid.UUID(job_id)\<close> is the standard library's parser. On a string it removes every
  \<^verbatim>\<open>urn:\<close> and then every \<^verbatim>\<open>uuid:\<close>, strips braces from both ends, removes every
  hyphen, raises \<^verbatim>\<open>ValueError\<close> unless 32 characters are left, and hands them to
  \<^verbatim>\<open>int(hex, 16)\<close>, which raises \<^verbatim>\<open>ValueError\<close> unless it can read them.
  \<^verbatim>\<open>int\<close> with base 16 skips white space at both ends (\<open>int_isspace\<close>: the
  white space of \<^verbatim>\<open>str.strip\<close> but for the four separators \<^verbatim>\<open>0x1C\<close> to
  \<^verbatim>\<open>0x1F\<close>), a sign, and the prefix \<^verbatim>\<open>0x\<close> or \<^verbatim>\<open>0X\<close> with one underscore
  after it; what is left must be hexadecimal digits, with single underscores between
  digits only. \<open>remove_all\<close> is
  \<^verbatim>\<open>str.replace(pat, '')\<close>: the occurrences are found from the left and do not
  overlap; its second argument counts the characters of an occurrence still to be
  dropped.
\<close>

fun remove_from :: "string \<Rightarrow> nat \<Rightarrow> string \<Rightarrow> string" where
  "remove_from pat k [] = []"
| "remove_from pat (Suc k) (c # cs) = remove_from pat k cs"
| "remove_from pat 0 (c # cs) =
     (if pat \<noteq> [] \<and> take (length pat) (c # cs) = pat
      then remove_from pat (length pat - 1) cs
      else c # remove_from pat 0 cs)"

definition remove_all :: "string \<Rightarrow> string \<Rightarrow> string" where
  "remove_all pat s = remove_from pat 0 s"

definition is_brace :: "char \<Rightarrow> bool" where
  "is_brace c = (c = CHR 0x7B \<or> c = CHR 0x7D)"

definition strip_braces :: "string \<Rightarrow> string" where
  "strip_braces s = rev (dropWhile is_brace (rev (dropWhile is_brace s)))"

definition is_hex_digit :: "char \<Rightarrow> bool" where
  "is_hex_digit c = (c \<in> set ''0123456789abcdefABCDEF'')"

fun digits_ok :: "string \<Rightarrow> bool" where
  "digits_ok [] = False"
| "digits_ok [c] = is_hex_digit c"
| "digits_ok (c # d # cs) =
     (is_hex_digit c \<and> (if d = CHR ''_'' then digits_ok cs else digits_ok (d # cs)))"

definition int_isspace :: "char \<Rightarrow> bool" where
  "int_isspace c = (c \<in> set [CHR 0x20, CHR 0x09, CHR 0x0A, CHR 0x0B, CHR 0x0C, CHR 0x0D,
                               CHR 0x85, CHR 0xA0])"

definition int16_ok :: "string \<Rightarrow> bool" where
  "int16_ok s =
     (let t = rev (dropWhile int_isspace (rev (dropWhile int_isspace s)));
          u = (case t of [] \<Rightarrow> [] | c # r \<Rightarrow> if c = CHR ''+'' \<or> c = CHR ''-'' then r else t);
          v = (if take 2 u = ''0x'' \<or> take 2 u = ''0X''
               then (case drop 2 u of [] \<Rightarrow> [] | c # r \<Rightarrow> if c = CHR ''_'' then r else c # r)
               else u)
      in digits_ok v)"

definition uuid_hex :: "string \<Rightarrow> string" where
  "uuid_hex s =
     filter (\<lambda>c. c \<noteq> CHR ''-'') (strip_braces (remove_all ''uuid:'' (remove_all ''urn:'' s)))"

definition uuid_UUID_ok :: "string \<Rightarrow> bool" where
  "uuid_UUID_ok s = (length (uuid_hex s) = 32 \<and> int16_ok (uuid_hex s))"

text \<open>
  The well-formed text of a UUID: 36 characters, hyphens at the four places, hexadecimal
  digits elsewhere (8-4-4-4-12).
\<close>

definition canonical_uuid :: "string \<Rightarrow> bool" where
  "canonical_uuid x =
     (length x = 36 \<and> x ! 8 = CHR ''-'' \<and> x ! 13 = CHR ''-'' \<and> x ! 18 = CHR ''-'' \<and>
      x ! 23 = CHR ''-'' \<and>
      list_all is_hex_digit
        (take 8 x @ take 4 (drop 9 x) @ take 4 (drop 14 x) @ take 4 (drop 19 x) @ drop 24 x))"

text \<open>
  \<^verbatim>\<open>get_job_status\<close>. The second component counts the reads of the status store the
  call has made.
\<close>

definition get_job_status ::
  "(nat \<Rightarrow> string option) \<Rightarrow> (nat \<Rightarrow> redis) \<Rightarrow> nat \<Rightarrow> string
     \<Rightarrow> (HTTPException + JobStatusResponse) \<times> nat" where
  "get_job_status faults store start jid =
     (if jid = [] \<or> py_strip jid = [] then (Inl (HTTPException 400 ''Job ID is required''), 0)
      else if \<not> uuid_UUID_ok jid
      then (Inl (HTTPException 400 ''Invalid job ID format''), 0)
      else (case poll faults store jid start start None 0 of
              (Inl e, n) \<Rightarrow> (Inl e, n)
            | (Inr None, n) \<Rightarrow>
                (Inl (HTTPException 408 ''Request timeout: Job processing took too long''), n)
            | (Inr (Some r), n) \<Rightarrow> (Inr (response_of r), n)))"

text \<open>
  What the loop sees: \<open>observe\<close> is the read of pass \<open>i\<close> (made \<open>2 * i\<close> seconds
  after the start), \<open>waiting\<close> says that this read found a record that is not
  terminal, \<open>seen\<close> is the variable \<^verbatim>\<open>result\<close> after \<open>k\<close> such passes.
\<close>

definition observe ::
  "(nat \<Rightarrow> string option) \<Rightarrow> (nat \<Rightarrow> redis) \<Rightarrow> string \<Rightarrow> nat \<Rightarrow> nat
     \<Rightarrow> exn + ProcessingResult option" where
  "observe faults store jid start i =
     get_result (faults (start + 2 * i)) (start + 2 * i) jid (store (start + 2 * i))"

definition waiting ::
  "(nat \<Rightarrow> string option) \<Rightarrow> (nat \<Rightarrow> redis) \<Rightarrow> string \<Rightarrow> nat \<Rightarrow> nat \<Rightarrow> bool" where
  "waiting faults store jid start i =
     (case observe faults store jid start i of
        Inr (Some r) \<Rightarrow> \<not> terminal (status r)
      | _ \<Rightarrow> False)"

definition seen ::
  "(nat \<Rightarrow> string option) \<Rightarrow> (nat \<Rightarrow> redis) \<Rightarrow> string \<Rightarrow> nat \<Rightarrow> nat
     \<Rightarrow> ProcessingResult option" where
  "seen faults store jid start k =
     (if k = 0 then None
      else (case observe faults store jid start (k - 1) of Inr x \<Rightarrow> x | Inl e \<Rightarrow> None))"

section \<open>Sample surroundings\<close>

text \<open>
  Concrete surroundings for running the model: a job and its entry, clocks, an upstream
  service that answers and one that only times out.
\<close>

definition sample_enqueue :: enqueue_env where
  "sample_enqueue =
     \<lparr>q_fault_set = None, q_fault_xadd = None, q_fault_save = None,
      q_message_id = ''1700000000000-0'', q_now = 0,
      q_timestamp = ''2023-11-14T22:13:20'', q_created_at = ''2023-11-14T22:13:20''\<rparr>"

definition sample_job :: string where
  "sample_job = ''0b1f6c1e-6c1a-4d0e-9a57-3f2b8f0c9d11''"

definition sample_entry :: "string \<Rightarrow> json_object" where
  "sample_entry parser_name =
     [(''job_id'', sample_job), (''filename'', ''a.pdf''), (''parser'', parser_name),
      (''pdf_key'', ''pdf:'' @ sample_job), (''timestamp'', ''2023-11-14T22:13:20'')]"

definition answering :: upstream where
  "answering =
     \<lparr>pypdf_pages = Inr ''## Page 1 Hello'', summary_answer = Inr ''A summary.'',
      content_attempts = (\<lambda>k. Generated ''# Title and body text''),
      summary_attempts = (\<lambda>k. Generated ''A summary of the text.'')\<rparr>"

definition timing_out :: upstream where
  "timing_out =
     \<lparr>pypdf_pages = Inl (Exn PlainException ''PDF has no pages''),
      summary_answer = Inl (Exn PlainException ''unavailable''),
      content_attempts = (\<lambda>k. TimedOut ''Read timed out.''),
      summary_attempts = (\<lambda>k. TimedOut ''Read timed out.'')\<rparr>"

definition sample_work :: "nat \<Rightarrow> nat \<Rightarrow> upstream \<Rightarrow> work_env" where
  "sample_work t t' up =
     \<lparr>w_fault_get = None, w_fault_processing = None, w_fault_pdf = None,
      w_fault_completed = None, w_fault_ack = None, h_fault_get = None,
      h_fault_failed = None, h_fault_ack = None,
      w_now = t, w_later = t', w_later_iso = ''2023-11-14T22:14:00+00:00'',
      w_upstream = up, w_meanwhile = (\<lambda>s. s)\<rparr>"

text \<open>
  States and records of sample runs: Redis after the sample job was queued on an empty
  database (with either parser), the pending record it then holds, the surroundings of
  a call whose acknowledgment on the success path is refused, and Redis and the record
  after the worker has completed the job.
\<close>

definition sample_queued :: redis where
  "sample_queued =
     snd (add_job_to_queue sample_enqueue sample_job ''a.pdf'' ''%PDF-1.4'' PYPDF empty_redis)"

definition sample_pending :: ProcessingResult where
  "sample_pending =
     \<lparr>job_id = sample_job, filename = ''a.pdf'', parser = PYPDF, status = PENDING,
      content = None, summary = None, error = None, created_at = ''2023-11-14T22:13:20'',
      completed_at = None\<rparr>"

definition sample_gemini_queued :: redis where
  "sample_gemini_queued =
     snd (add_job_to_queue sample_enqueue sample_job ''a.pdf'' ''%PDF-1.4'' GEMINI empty_redis)"

definition ack_refused :: work_env where
  "ack_refused = (sample_work 5 60 answering)\<lparr>w_fault_ack := Some ''Connection reset by peer''\<rparr>"

definition sample_done :: redis where
  "sample_done =
     snd (process_message (sample_work 1 3 answering) ''1700000000000-0''
            (sample_entry ''pypdf'') sample_queued)"

definition sample_completed :: ProcessingResult where
  "sample_completed =
     sample_pending\<lparr>status := COMPLETED, content := Some ''## Page 1 Hello'',
        summary := Some ''Document is too short to summarize effectively.'',
        completed_at := Some ''2023-11-14T22:14:00+00:00''\<rparr>"

text \<open>
  Redis between the producer's \<^verbatim>\<open>XADD\<close> and its initial status write (entry and
  payload are there, the status record is not), that write arriving late, and the
  surroundings of a call during which it arrives.
\<close>

definition sample_unannounced :: redis where
  "sample_unannounced =
     snd (add_job_to_queue (sample_enqueue\<lparr>q_fault_save := Some ''not yet written''\<rparr>)
            sample_job ''a.pdf'' ''%PDF-1.4'' PYPDF empty_redis)"

definition producer_announces :: "redis \<Rightarrow> redis" where
  "producer_announces s =
     (case save_result None 0 sample_pending s of Inl e \<Rightarrow> s | Inr s' \<Rightarrow> s')"

definition announced_meanwhile :: "upstream \<Rightarrow> work_env" where
  "announced_meanwhile up = (sample_work 0 2 up)\<lparr>w_meanwhile := producer_announces\<rparr>"

text \<open>
  A status store that holds an older record of the sample job, with another file name
  and an error.
\<close>

definition stale_record :: ProcessingResult where
  "stale_record =
     sample_pending\<lparr>filename := ''old.pdf'', status := FAILED,
        error := Some ''earlier failure'',
        completed_at := Some ''2023-11-14T22:13:30+00:00''\<rparr>"

definition sample_stale :: redis where
  "sample_stale =
     (case save_result None 1 stale_record sample_queued of
        Inl e \<Rightarrow> sample_queued
      | Inr s \<Rightarrow> s)"


definition keyless_entry :: json_object where
  "keyless_entry =
     [(''job_id'', sample_job), (''filename'', ''a.pdf''), (''parser'', ''pypdf''),
      (''timestamp'', ''2023-11-14T22:13:20'')]"

text \<open>
  Job ids that are no well-formed UUID: the digits of the sample id with a hyphen out of
  place, and with the prefix of a hexadecimal literal.
\<close>

definition misplaced_hyphen_id :: string where
  "misplaced_hyphen_id = ''0-b1f6c1e6c1a4d0e9a573f2b8f0c9d11''"

definition prefixed_id :: string where
  "prefixed_id = ''0x0b1f6c1e6c1a4d0e9a573f2b8f0c9d''"

section \<open>Basic facts\<close>

lemma ParserType_of_value [simp]: "ParserType_of (Some (ParserType_value p)) = Some p"
  by (cases p) (simp_all add: ParserType_of_def)

lemma ProcessingStatus_of_value [simp]:
  "ProcessingStatus_of (Some (ProcessingStatus_value s)) = Some s"
  by (cases s) (simp_all add: ProcessingStatus_of_def)

lemma dict_exclude_none_lookup:
  "map_of (dict_exclude_none r) ''job_id'' = Some (job_id r)"
  "map_of (dict_exclude_none r) ''filename'' = Some (filename r)"
  "map_of (dict_exclude_none r) ''parser'' = Some (ParserType_value (parser r))"
  "map_of (dict_exclude_none r) ''status'' = Some (ProcessingStatus_value (status r))"
  "map_of (dict_exclude_none r) ''content'' = content r"
  "map_of (dict_exclude_none r) ''summary'' = summary r"
  "map_of (dict_exclude_none r) ''error'' = error r"
  "map_of (dict_exclude_none r) ''created_at'' = Some (created_at r)"
  "map_of (dict_exclude_none r) ''completed_at'' = completed_at r"
  by (simp_all add: dict_exclude_none_def optional_member_def map_add_def
      split: option.splits)

lemma of_dict_exclude_none [simp]: "ProcessingResult_of_dict (dict_exclude_none r) = Inr r"
  by (simp add: ProcessingResult_of_dict_def dict_exclude_none_lookup)

lemma command_fault [simp]:
  "get_result (Some m) now jid s = Inl (Exn RedisError m)"
  "save_result (Some m) now r s = Inl (Exn RedisError m)"
  "get_pdf_data (Some m) now pk s = Inl (Exn RedisError m)"
  "acknowledge_message (Some m) mid s = Inl (Exn RedisError m)"
  by (simp_all add: get_result_def save_result_def get_pdf_data_def acknowledge_message_def)

lemma command_answer [simp]:
  "save_result None now r s =
     Inr (s\<lparr>text_db := (text_db s)(result_key (job_id r) \<mapsto> (dict_exclude_none r, now + ttl)),
            result_writes := result_writes s @ [r]\<rparr>)"
  "acknowledge_message None mid s = Inr (s\<lparr>acked := insert mid (acked s)\<rparr>)"
  by (simp_all add: save_result_def acknowledge_message_def)

lemma of_dict_error:
  "ProcessingResult_of_dict d = Inl e \<Longrightarrow>
   e = Exn ValidationError ''validation error for ProcessingResult''"
  by (auto simp: ProcessingResult_of_dict_def split: option.splits)

lemma get_result_error:
  "get_result None now jid s = Inl e \<Longrightarrow>
   e = Exn ValidationError ''validation error for ProcessingResult''"
  by (auto simp: get_result_def split: option.splits sum.splits dest: of_dict_error)

lemma process_try_acked:
  "process_try env mid jid fname p pk s = (None, s') \<Longrightarrow> mid \<in> acked s'"
  unfolding process_try_def
  by (cases "w_fault_ack env") (auto split: sum.splits option.splits prod.splits if_splits)

lemma process_except_outcome:
  "process_except env mid jid e s = (x, s') \<Longrightarrow>
     (x = None \<and> mid \<in> acked s') \<or>
     (\<exists>m. x = Some (Exn RedisError m) \<and>
          (h_fault_get env = Some m \<or> h_fault_failed env = Some m \<or> h_fault_ack env = Some m)) \<or>
     (x = Some (Exn ValidationError ''validation error for ProcessingResult'') \<and>
      h_fault_get env = None \<and>
      get_result None (w_later env) (format_opt jid) s =
        Inl (Exn ValidationError ''validation error for ProcessingResult''))"
  unfolding process_except_def
  by (cases "h_fault_get env"; cases "h_fault_failed env"; cases "h_fault_ack env")
     (auto split: sum.splits option.splits dest: get_result_error)

lemma get_pdf_data_frame [simp]:
  "get_pdf_data fault now pk (s\<lparr>text_db := x, result_writes := y\<rparr>) = get_pdf_data fault now pk s"
  by (simp add: get_pdf_data_def split: option.splits)

lemma get_result_frame [simp]:
  "get_result fault now jid (s\<lparr>acked := a\<rparr>) = get_result fault now jid s"
  "get_result fault now jid (s\<lparr>result_writes := w\<rparr>) = get_result fault now jid s"
  by (simp_all add: get_result_def split: option.splits)

lemma get_result_written:
  "get_result None t jid (s\<lparr>text_db := m(result_key jid \<mapsto> (dict_exclude_none r, e))\<rparr>)
   = (if t < e then Inr (Some r) else Inr None)"
  by (simp add: get_result_def live_def)

subsection \<open>The sample state: one job queued on an empty Redis\<close>

lemma sample_queued_eq:
  "sample_queued =
     \<lparr>text_db = [result_key sample_job \<mapsto> (dict_exclude_none sample_pending, 3600)],
      binary_db = [pdf_key_of sample_job \<mapsto> (''%PDF-1.4'', 3600)],
      stream = [(''1700000000000-0'', sample_entry ''pypdf'')],
      delivered = 0, acked = {}, result_writes = [sample_pending]\<rparr>"
  by (simp add: sample_queued_def add_job_to_queue_def sample_enqueue_def Let_def
      empty_redis_def ttl_def sample_pending_def sample_entry_def pdf_key_of_def)

lemma sample_unannounced_eq:
  "sample_unannounced =
     \<lparr>text_db = Map.empty,
      binary_db = [pdf_key_of sample_job \<mapsto> (''%PDF-1.4'', 3600)],
      stream = [(''1700000000000-0'', sample_entry ''pypdf'')],
      delivered = 0, acked = {}, result_writes = []\<rparr>"
  by (simp add: sample_unannounced_def add_job_to_queue_def sample_enqueue_def Let_def
      empty_redis_def ttl_def sample_entry_def pdf_key_of_def)

lemma sample_queued_writes: "result_writes sample_queued = [sample_pending]"
  by (simp add: sample_queued_eq)

lemma sample_queued_acked: "acked sample_queued = {}"
  by (simp add: sample_queued_eq)

lemma sample_queued_get:
  "t < 3600 \<Longrightarrow> get_result None t sample_job sample_queued = Inr (Some sample_pending)"
  by (simp add: sample_queued_eq get_result_def live_def)

lemma sample_queued_pdf:
  "t < 3600 \<Longrightarrow>
   get_pdf_data None t (Some (pdf_key_of sample_job)) sample_queued = Inr (Some ''%PDF-1.4'')"
  by (simp add: sample_queued_eq get_pdf_data_def live_def)

lemma sample_entry_fields:
  "map_of (sample_entry x) ''job_id'' = Some sample_job"
  "map_of (sample_entry x) ''filename'' = Some ''a.pdf''"
  "map_of (sample_entry x) ''parser'' = Some x"
  "map_of (sample_entry x) ''pdf_key'' = Some (pdf_key_of sample_job)"
  by (simp_all add: sample_entry_def pdf_key_of_def)

lemma sample_work_fields [simp]:
  "fault_free (sample_work t t' up)"
  "w_now (sample_work t t' up) = t"
  "w_later (sample_work t t' up) = t'"
  "w_later_iso (sample_work t t' up) = ''2023-11-14T22:14:00+00:00''"
  "w_upstream (sample_work t t' up) = up"
  "w_fault_pdf (sample_work t t' up) = None"
  "w_meanwhile (sample_work t t' up) = (\<lambda>s. s)"
  by (simp_all add: sample_work_def fault_free_def)

lemma pypdf_answering:
  "process_document answering pdf_data PYPDF fname =
     Inr (Some ''## Page 1 Hello'', Some ''Document is too short to summarize effectively.'')"
  by (simp add: process_document_def answering_def extract_with_pypdf_def generate_summary_def
      py_strip_def py_isspace_def)

lemma pypdf_timing_out:
  "process_document timing_out pdf_data PYPDF fname =
     Inl (Exn PlainException ''PyPDF extraction failed: PDF has no pages'')"
  by (simp add: process_document_def timing_out_def extract_with_pypdf_def)

section \<open>Serialisation\<close>

text \<open>
  C10. For every record, \<^verbatim>\<open>save_result\<close> followed by \<^verbatim>\<open>get_result\<close> of the same
  job id gives the record back: the JSON form without the absent optional fields,
  read again, is the record. Redis answers both commands and the read comes before
  the hour of the write is over.
\<close>

theorem save_then_get_is_identity:
  "t < now + 3600 \<Longrightarrow>
     ProcessingResult_of_dict (dict_exclude_none r) = Inr r \<and>
     (\<exists>s'. save_result None now r s = Inr s' \<and>
           get_result None t (job_id r) s' = Inr (Some r))"
  by (simp add: get_result_def live_def ttl_def)

theorem save_then_get_is_identity_witness:
  "(10::nat) < 0 + 3600 \<and>
   ProcessingResult_of_dict (dict_exclude_none sample_pending) = Inr sample_pending \<and>
   (\<exists>s'. save_result None 0 sample_pending empty_redis = Inr s' \<and>
         get_result None 10 (job_id sample_pending) s' = Inr (Some sample_pending))"
  using save_then_get_is_identity [of 10 0 sample_pending empty_redis] by simp

section \<open>The worker: acknowledgment\<close>

text \<open>
  What a call of \<^verbatim>\<open>process_message\<close> on an entry whose \<^verbatim>\<open>parser\<close> field names a
  parser can end with: the entry acknowledged, or a Redis error raised by one of the
  three commands of the handler, or the handler's read of the status store raising
  because the value under the job's key is not the JSON form of a record.
\<close>

lemma valid_parser_entry_outcomes:
  assumes "ParserType_of (map_of data ''parser'') \<noteq> None"
    and "process_message env mid data s = (x, s')"
  shows "(x = None \<and> mid \<in> acked s') \<or>
         (\<exists>m. x = Some (Exn RedisError m) \<and>
              (h_fault_get env = Some m \<or> h_fault_failed env = Some m \<or>
               h_fault_ack env = Some m)) \<or>
         (x = Some (Exn ValidationError ''validation error for ProcessingResult'') \<and>
          h_fault_get env = None)"
  using assms unfolding process_message_def Let_def
  by (auto split: option.splits prod.splits
      dest!: process_try_acked process_except_outcome)

text \<open>
  The handler's own policy, \<^verbatim>\<open>Acknowledge message anyway to prevent reprocessing\<close>,
  at work on an entry that cannot be processed: an entry without the \<^verbatim>\<open>pdf_key\<close>
  field fails in the \<^verbatim>\<open>try\<close> (the client refuses the key \<^verbatim>\<open>None\<close>), is marked
  failed and is acknowledged.
\<close>

lemma keyless_entry_is_acknowledged:
  "fst (process_message (sample_work 5 60 answering) ''1700000000000-0'' keyless_entry
          sample_queued) = None \<and>
   acked (snd (process_message (sample_work 5 60 answering) ''1700000000000-0'' keyless_entry
          sample_queued)) = {''1700000000000-0''} \<and>
   get_result None 60 sample_job
     (snd (process_message (sample_work 5 60 answering) ''1700000000000-0'' keyless_entry
             sample_queued))
     = Inr (Some (sample_pending\<lparr>status := FAILED, error := Some missing_key_message,
                    completed_at := Some ''2023-11-14T22:14:00+00:00''\<rparr>))"
  by (simp add: process_message_def process_try_def process_except_def Let_def
      keyless_entry_def ParserType_of_def format_opt_def sample_work_def
      sample_queued_get get_result_written ttl_def get_pdf_data_def sample_queued_acked
      sample_pending_def)


section \<open>The worker: what a call persists\<close>

text \<open>
  Two ways through the \<^verbatim>\<open>try\<close>, with the status commands before the extraction
  answered and \<open>first\<close> what the first read found.
  When the payload fetch or the extraction fails with \<open>e\<close>, the \<^verbatim>\<open>try\<close> ends by
  \<open>e\<close>, with Redis as the other clients left it. When the extraction returns content
  and summary and the last two commands are answered, the \<^verbatim>\<open>try\<close> ends normally,
  with the completed record written and the entry acknowledged.
\<close>

lemma try_fails:
  assumes "w_fault_get env = None" and "w_fault_processing env = None"
    and "get_result None (w_now env) j s = Inr first"
    and "fetch_and_extract env pk p fname s = Inl e"
  shows "process_try env mid (Some j) fname p pk s =
           (Some e, w_meanwhile env (case first of None \<Rightarrow> s | Some r \<Rightarrow> marked env r s))"
proof (cases first)
  case None
  with assms show ?thesis
    unfolding process_try_def fetch_and_extract_def
    by (auto simp: format_opt_def split: sum.splits option.splits if_splits)
next
  case (Some r)
  with assms show ?thesis
    unfolding process_try_def fetch_and_extract_def marked_def
    by (auto simp: format_opt_def split: sum.splits option.splits if_splits)
qed

lemma try_succeeds:
  assumes "w_fault_get env = None" and "w_fault_processing env = None"
    and "w_fault_completed env = None" and "w_fault_ack env = None"
    and "get_result None (w_now env) j s = Inr first"
    and "fetch_and_extract env pk p (Some f) s = Inr (c, Some sm)"
    and "sb = w_meanwhile env (case first of None \<Rightarrow> s | Some r \<Rightarrow> marked env r s)"
    and "rc = \<lparr>job_id = j, filename = f, parser = p, status = COMPLETED, content = c,
               summary = Some sm, error = None,
               created_at = (case first of Some r \<Rightarrow> created_at r | None \<Rightarrow> w_later_iso env),
               completed_at = Some (w_later_iso env)\<rparr>"
  shows "process_try env mid (Some j) (Some f) p pk s =
           (None, sb\<lparr>text_db := (text_db sb)(result_key j \<mapsto>
                                    (dict_exclude_none rc, w_later env + ttl)),
                     result_writes := result_writes sb @ [rc],
                     acked := insert mid (acked sb)\<rparr>)"
proof (cases first)
  case None
  with assms show ?thesis
    unfolding process_try_def fetch_and_extract_def
    by (auto simp: format_opt_def split: sum.splits option.splits if_splits)
next
  case (Some r)
  with assms show ?thesis
    unfolding process_try_def fetch_and_extract_def marked_def
    by (auto simp: format_opt_def split: sum.splits option.splits if_splits)
qed

lemma handler_answers:
  assumes "h_fault_get env = None" and "h_fault_failed env = None" and "h_fault_ack env = None"
    and "get_result None (w_later env) j sb = Inr found"
  shows "process_except env mid (Some j) e sb =
           (None,
            (case found of
               None \<Rightarrow> sb\<lparr>acked := insert mid (acked sb)\<rparr>
             | Some r \<Rightarrow>
                 sb\<lparr>text_db := (text_db sb)(result_key (job_id r) \<mapsto>
                       (dict_exclude_none
                          (r\<lparr>status := FAILED, error := Some (str_exn e),
                             completed_at := Some (w_later_iso env)\<rparr>), w_later env + ttl)),
                    result_writes := result_writes sb @
                       [r\<lparr>status := FAILED, error := Some (str_exn e),
                          completed_at := Some (w_later_iso env)\<rparr>],
                    acked := insert mid (acked sb)\<rparr>))"
  using assms unfolding process_except_def
  by (cases found) (simp_all add: format_opt_def)

lemma marked_found:
  "job_id r = j \<Longrightarrow> t < w_now env + 3600 \<Longrightarrow>
   get_result None t j (marked env r s) = Inr (Some (r\<lparr>status := PROCESSING\<rparr>))"
  by (simp add: marked_def get_result_def live_def ttl_def)

text \<open>
  C2, as the code has it. The payload fetch or the extraction of an entry fails with
  \<open>e\<close> (an absent payload is the failure \<^verbatim>\<open>PDF data not found in Redis\<close>, a Redis
  error of the fetch is \<open>e\<close> itself), and Redis answers the status commands and the
  acknowledgment of the call. Then the entry is acknowledged, and what is persisted
  depends on what the handler's own read of the status store finds, after the other
  clients have had their turn (\<open>sb\<close>). If it finds a record \<open>r\<close>, the handler
  persists \<open>r\<close> with \<^verbatim>\<open>status = failed\<close>, the message of \<open>e\<close> and
  \<^verbatim>\<open>completed_at\<close> set to now, and a read of that job gives it back. If it finds none,
  the handler writes nothing: the status store and the history of writes stay as they
  were. A record \<open>r\<close> of job \<open>j\<close> that the worker read when the entry arrived is the
  one the handler finds, marked as processing, when no other client has written in
  between and the hour of that mark is not over.
\<close>

theorem failure_marks_the_record_the_handler_finds:
  assumes "ParserType_of (map_of data ''parser'') = Some p"
    and "map_of data ''job_id'' = Some j"
    and "w_fault_get env = None" and "w_fault_processing env = None"
    and "h_fault_get env = None" and "h_fault_failed env = None" and "h_fault_ack env = None"
    and "get_result None (w_now env) j s = Inr first"
    and "fetch_and_extract env (map_of data ''pdf_key'') p (map_of data ''filename'') s = Inl e"
    and "sb = w_meanwhile env (case first of None \<Rightarrow> s | Some r \<Rightarrow> marked env r s)"
    and "get_result None (w_later env) j sb = Inr found"
    and "process_message env mid data s = (x, s')"
  shows "x = None \<and> mid \<in> acked s' \<and>
         (case found of
            None \<Rightarrow> text_db s' = text_db sb \<and> result_writes s' = result_writes sb
          | Some r \<Rightarrow>
              result_writes s' = result_writes sb @
                [r\<lparr>status := FAILED, error := Some (str_exn e),
                   completed_at := Some (w_later_iso env)\<rparr>] \<and>
              get_result None (w_later env) (job_id r) s' =
                Inr (Some (r\<lparr>status := FAILED, error := Some (str_exn e),
                              completed_at := Some (w_later_iso env)\<rparr>))) \<and>
         (get_pdf_data (w_fault_pdf env) (w_now env) (map_of data ''pdf_key'') s = Inr None
            \<longrightarrow> e = Exn PlainException ''PDF data not found in Redis'') \<and>
         (\<forall>m. w_fault_pdf env = Some m \<longrightarrow> e = Exn RedisError m) \<and>
         (\<forall>r. first = Some r \<and> job_id r = j \<and> w_meanwhile env = (\<lambda>s. s) \<and>
               w_later env < w_now env + 3600 \<longrightarrow> found = Some (r\<lparr>status := PROCESSING\<rparr>))"
proof -
  have t: "process_try env mid (Some j) (map_of data ''filename'') p (map_of data ''pdf_key'') s
      = (Some e, sb)"
    unfolding assms(10) using assms(3,4,8,9) by (rule try_fails)
  have h: "process_except env mid (Some j) e sb =
      (None,
       (case found of
          None \<Rightarrow> sb\<lparr>acked := insert mid (acked sb)\<rparr>
        | Some r \<Rightarrow>
            sb\<lparr>text_db := (text_db sb)(result_key (job_id r) \<mapsto>
                  (dict_exclude_none
                     (r\<lparr>status := FAILED, error := Some (str_exn e),
                        completed_at := Some (w_later_iso env)\<rparr>), w_later env + ttl)),
               result_writes := result_writes sb @
                  [r\<lparr>status := FAILED, error := Some (str_exn e),
                     completed_at := Some (w_later_iso env)\<rparr>],
               acked := insert mid (acked sb)\<rparr>))"
    using assms(5,6,7,11) by (rule handler_answers)
  have run: "process_message env mid data s = process_except env mid (Some j) e sb"
    unfolding process_message_def Let_def using assms(1,2) t by simp
  have a: "x = None \<and> mid \<in> acked s' \<and>
         (case found of
            None \<Rightarrow> text_db s' = text_db sb \<and> result_writes s' = result_writes sb
          | Some r \<Rightarrow>
              result_writes s' = result_writes sb @
                [r\<lparr>status := FAILED, error := Some (str_exn e),
                   completed_at := Some (w_later_iso env)\<rparr>] \<and>
              get_result None (w_later env) (job_id r) s' =
                Inr (Some (r\<lparr>status := FAILED, error := Some (str_exn e),
                              completed_at := Some (w_later_iso env)\<rparr>)))"
    using assms(12) run h
    by (cases found) (auto simp: get_result_def live_def ttl_def)
  have b: "get_pdf_data (w_fault_pdf env) (w_now env) (map_of data ''pdf_key'') s = Inr None
            \<longrightarrow> e = Exn PlainException ''PDF data not found in Redis''"
    using assms(9) by (auto simp: fetch_and_extract_def)
  have c: "\<forall>m. w_fault_pdf env = Some m \<longrightarrow> e = Exn RedisError m"
    using assms(9) by (auto simp: fetch_and_extract_def)
  have d: "\<forall>r. first = Some r \<and> job_id r = j \<and> w_meanwhile env = (\<lambda>s. s) \<and>
               w_later env < w_now env + 3600 \<longrightarrow> found = Some (r\<lparr>status := PROCESSING\<rparr>)"
    using assms(10,11) by (auto simp: marked_found)
  from a b c d show ?thesis by blast
qed

lemma unannounced_reads:
  "get_result None 0 sample_job sample_unannounced = Inr None"
  "get_pdf_data None 0 (Some (pdf_key_of sample_job)) sample_unannounced = Inr (Some ''%PDF-1.4'')"
  by (simp_all add: sample_unannounced_eq get_result_def get_pdf_data_def live_def)

lemma announced_reads:
  "get_result None 2 sample_job (producer_announces sample_unannounced)
     = Inr (Some sample_pending)"
  "result_writes (producer_announces sample_unannounced) = [sample_pending]"
  "job_id sample_pending = sample_job"
  by (simp_all add: producer_announces_def get_result_def live_def ttl_def sample_pending_def
      sample_unannounced_eq)

lemma announced_meanwhile_fields [simp]:
  "w_fault_get (announced_meanwhile up) = None"
  "w_fault_processing (announced_meanwhile up) = None"
  "w_fault_pdf (announced_meanwhile up) = None"
  "w_fault_completed (announced_meanwhile up) = None"
  "w_fault_ack (announced_meanwhile up) = None"
  "h_fault_get (announced_meanwhile up) = None"
  "h_fault_failed (announced_meanwhile up) = None"
  "h_fault_ack (announced_meanwhile up) = None"
  "w_now (announced_meanwhile up) = 0"
  "w_later (announced_meanwhile up) = 2"
  "w_later_iso (announced_meanwhile up) = ''2023-11-14T22:14:00+00:00''"
  "w_upstream (announced_meanwhile up) = up"
  "w_meanwhile (announced_meanwhile up) = producer_announces"
  by (simp_all add: announced_meanwhile_def sample_work_def)

text \<open>
  The theorem at work on the sample job when the producer's initial status write lands
  after the worker has begun: the first read finds no record, the extraction fails, the
  handler finds the pending record that has arrived meanwhile and persists it as
  failed. The records written for the job are the pending and the failed one.
\<close>

theorem failure_marks_the_record_the_handler_finds_witness:
  "get_result None 0 sample_job sample_unannounced = Inr None \<and>
   fetch_and_extract (announced_meanwhile timing_out)
       (map_of (sample_entry ''pypdf'') ''pdf_key'') PYPDF
       (map_of (sample_entry ''pypdf'') ''filename'') sample_unannounced
     = Inl (Exn PlainException ''PyPDF extraction failed: PDF has no pages'') \<and>
   get_result None 2 sample_job (producer_announces sample_unannounced)
     = Inr (Some sample_pending) \<and>
   fst (process_message (announced_meanwhile timing_out) ''1700000000000-0''
          (sample_entry ''pypdf'') sample_unannounced) = None \<and>
   ''1700000000000-0'' \<in> acked (snd (process_message (announced_meanwhile timing_out)
          ''1700000000000-0'' (sample_entry ''pypdf'') sample_unannounced)) \<and>
   result_writes (snd (process_message (announced_meanwhile timing_out) ''1700000000000-0''
          (sample_entry ''pypdf'') sample_unannounced))
     = [sample_pending,
        sample_pending\<lparr>status := FAILED,
           error := Some ''PyPDF extraction failed: PDF has no pages'',
           completed_at := Some ''2023-11-14T22:14:00+00:00''\<rparr>] \<and>
   get_result None 2 sample_job
     (snd (process_message (announced_meanwhile timing_out) ''1700000000000-0''
             (sample_entry ''pypdf'') sample_unannounced))
     = Inr (Some (sample_pending\<lparr>status := FAILED,
                    error := Some ''PyPDF extraction failed: PDF has no pages'',
                    completed_at := Some ''2023-11-14T22:14:00+00:00''\<rparr>))"
proof -
  let ?env = "announced_meanwhile timing_out"
  let ?r = "process_message ?env ''1700000000000-0'' (sample_entry ''pypdf'') sample_unannounced"
  have p: "ParserType_of (map_of (sample_entry ''pypdf'') ''parser'') = Some PYPDF"
    by (simp add: sample_entry_fields ParserType_of_def)
  have first: "get_result None (w_now ?env) sample_job sample_unannounced = Inr None"
    by (simp add: unannounced_reads)
  have fail: "fetch_and_extract ?env (map_of (sample_entry ''pypdf'') ''pdf_key'') PYPDF
      (map_of (sample_entry ''pypdf'') ''filename'') sample_unannounced
      = Inl (Exn PlainException ''PyPDF extraction failed: PDF has no pages'')"
    by (simp add: fetch_and_extract_def sample_entry_fields unannounced_reads pypdf_timing_out)
  have sb: "producer_announces sample_unannounced =
      w_meanwhile ?env (case None of None \<Rightarrow> sample_unannounced
                        | Some r \<Rightarrow> marked ?env r sample_unannounced)"
    by simp
  have found: "get_result None (w_later ?env) sample_job (producer_announces sample_unannounced)
      = Inr (Some sample_pending)"
    by (simp add: announced_reads)
  have run: "?r = (fst ?r, snd ?r)" by simp
  from failure_marks_the_record_the_handler_finds
    [where env = ?env and sb = "producer_announces sample_unannounced",
     OF p sample_entry_fields(1) _ _ _ _ _ first fail sb found run]
  have "fst ?r = None \<and> ''1700000000000-0'' \<in> acked (snd ?r) \<and>
        result_writes (snd ?r) = [sample_pending,
          sample_pending\<lparr>status := FAILED,
             error := Some ''PyPDF extraction failed: PDF has no pages'',
             completed_at := Some ''2023-11-14T22:14:00+00:00''\<rparr>] \<and>
        get_result None 2 sample_job (snd ?r)
          = Inr (Some (sample_pending\<lparr>status := FAILED,
                    error := Some ''PyPDF extraction failed: PDF has no pages'',
                    completed_at := Some ''2023-11-14T22:14:00+00:00''\<rparr>))"
    by (simp add: announced_reads)
  with first fail found show ?thesis by simp
qed

text \<open>
  C2, as stated, fails: a job queued at second 0 whose entry is processed at second 3601
  finds its payload expired, so processing fails; its status record has expired too, the
  handler finds none and persists nothing. The only record ever written for the job is
  the pending one, none with \<^verbatim>\<open>status = failed\<close>, and the entry is acknowledged.
\<close>

theorem expired_job_gets_no_failed_record:
  "fetch_and_extract (sample_work 3601 3601 answering)
     (map_of (sample_entry ''pypdf'') ''pdf_key'') PYPDF
     (map_of (sample_entry ''pypdf'') ''filename'') sample_queued
     = Inl (Exn PlainException ''PDF data not found in Redis'') \<and>
   process_message (sample_work 3601 3601 answering) ''1700000000000-0''
     (sample_entry ''pypdf'') sample_queued
     = (None, sample_queued\<lparr>acked := {''1700000000000-0''}\<rparr>) \<and>
   map status (result_writes (sample_queued\<lparr>acked := {''1700000000000-0''}\<rparr>)) = [PENDING] \<and>
   get_result None 3601 sample_job (sample_queued\<lparr>acked := {''1700000000000-0''}\<rparr>)
     = Inr None"
  by (simp add: fetch_and_extract_def process_message_def process_try_def process_except_def
      sample_entry_fields ParserType_of_def sample_queued_eq get_result_def get_pdf_data_def
      live_def format_opt_def sample_pending_def Let_def sample_work_def)

text \<open>
  C7, as the code has it. When the extraction succeeds with \<open>(c, sm)\<close> and Redis
  answers the commands of the \<^verbatim>\<open>try\<close>, the record persisted as completed is built
  from the queue entry: \<^verbatim>\<open>job_id\<close>, \<^verbatim>\<open>filename\<close> and \<^verbatim>\<open>parser\<close> are the
  entry's, \<^verbatim>\<open>content\<close> and \<^verbatim>\<open>summary\<close> the extractor's, \<^verbatim>\<open>error\<close> is absent
  and \<^verbatim>\<open>completed_at\<close> is now. Its \<^verbatim>\<open>created_at\<close> is that of the record the worker
  read when the entry arrived (\<open>first\<close>), or now when it read none. A read of the job
  gives this record back. The write replaces the value under the job's status key and
  sets its expiry to an hour from now; against Redis as it stood just before the write
  (\<open>sb\<close>), no other status key, no payload and nothing of the stream changes, and the
  entry is acknowledged.
\<close>

theorem success_writes_the_entry_fields:
  assumes "ParserType_of (map_of data ''parser'') = Some p"
    and "map_of data ''job_id'' = Some j"
    and "map_of data ''filename'' = Some f"
    and "w_fault_get env = None" and "w_fault_processing env = None"
    and "w_fault_completed env = None" and "w_fault_ack env = None"
    and "get_result None (w_now env) j s = Inr first"
    and "fetch_and_extract env (map_of data ''pdf_key'') p (Some f) s = Inr (c, Some sm)"
    and "sb = w_meanwhile env (case first of None \<Rightarrow> s | Some r \<Rightarrow> marked env r s)"
    and "rc = \<lparr>job_id = j, filename = f, parser = p, status = COMPLETED, content = c,
               summary = Some sm, error = None,
               created_at = (case first of Some r \<Rightarrow> created_at r | None \<Rightarrow> w_later_iso env),
               completed_at = Some (w_later_iso env)\<rparr>"
  shows "\<exists>s'. process_message env mid data s = (None, s') \<and>
          get_result None (w_later env) j s' = Inr (Some rc) \<and>
          text_db s' (''result:'' @ j) = Some (dict_exclude_none rc, w_later env + 3600) \<and>
          (\<forall>k. k \<noteq> ''result:'' @ j \<longrightarrow> text_db s' k = text_db sb k) \<and>
          binary_db s' = binary_db sb \<and> stream s' = stream sb \<and> delivered s' = delivered sb \<and>
          acked s' = insert mid (acked sb) \<and>
          result_writes s' = result_writes sb @ [rc]"
proof -
  have t: "process_try env mid (Some j) (Some f) p (map_of data ''pdf_key'') s =
      (None, sb\<lparr>text_db := (text_db sb)(result_key j \<mapsto>
                               (dict_exclude_none rc, w_later env + ttl)),
                result_writes := result_writes sb @ [rc],
                acked := insert mid (acked sb)\<rparr>)"
    using assms(4-11) by (rule try_succeeds)
  have "process_message env mid data s =
      (None, sb\<lparr>text_db := (text_db sb)(result_key j \<mapsto>
                               (dict_exclude_none rc, w_later env + ttl)),
                result_writes := result_writes sb @ [rc],
                acked := insert mid (acked sb)\<rparr>)"
    unfolding process_message_def Let_def using assms(1,2,3) t by simp
  then show ?thesis
    by (simp add: get_result_def live_def ttl_def result_key_def)
qed

lemma stale_reads:
  "get_result None 5 sample_job sample_stale = Inr (Some stale_record)"
  "get_pdf_data None 5 (Some (pdf_key_of sample_job)) sample_stale = Inr (Some ''%PDF-1.4'')"
  by (simp_all add: sample_stale_def stale_record_def sample_queued_eq get_result_def
      get_pdf_data_def live_def ttl_def sample_pending_def)

theorem success_writes_the_entry_fields_witness:
  "get_result None 5 sample_job sample_queued = Inr (Some sample_pending) \<and>
   fetch_and_extract (sample_work 5 60 answering) (map_of (sample_entry ''pypdf'') ''pdf_key'')
       PYPDF (Some ''a.pdf'') sample_queued
     = Inr (Some ''## Page 1 Hello'', Some ''Document is too short to summarize effectively.'') \<and>
   (\<exists>s'. process_message (sample_work 5 60 answering) ''1700000000000-0''
            (sample_entry ''pypdf'') sample_queued = (None, s') \<and>
         get_result None 60 sample_job s' = Inr (Some sample_completed) \<and>
         text_db s' (''result:'' @ sample_job) =
           Some (dict_exclude_none sample_completed, 60 + 3600) \<and>
         binary_db s' = binary_db sample_queued \<and> stream s' = stream sample_queued \<and>
         acked s' = {''1700000000000-0''} \<and>
         result_writes s' =
           [sample_pending, sample_pending\<lparr>status := PROCESSING\<rparr>, sample_completed])"
proof -
  let ?env = "sample_work 5 60 answering"
  have p: "ParserType_of (map_of (sample_entry ''pypdf'') ''parser'') = Some PYPDF"
    by (simp add: sample_entry_fields ParserType_of_def)
  have first: "get_result None (w_now ?env) sample_job sample_queued = Inr (Some sample_pending)"
    by (simp add: sample_queued_get)
  have ok: "fetch_and_extract ?env (map_of (sample_entry ''pypdf'') ''pdf_key'') PYPDF
      (Some ''a.pdf'') sample_queued
      = Inr (Some ''## Page 1 Hello'', Some ''Document is too short to summarize effectively.'')"
    by (simp add: fetch_and_extract_def sample_entry_fields sample_queued_pdf pypdf_answering)
  have sb: "marked ?env sample_pending sample_queued =
      w_meanwhile ?env (case Some sample_pending of None \<Rightarrow> sample_queued
                        | Some r \<Rightarrow> marked ?env r sample_queued)"
    by simp
  have rc: "sample_completed =
      \<lparr>job_id = sample_job, filename = ''a.pdf'', parser = PYPDF, status = COMPLETED,
       content = Some ''## Page 1 Hello'',
       summary = Some ''Document is too short to summarize effectively.'', error = None,
       created_at = (case Some sample_pending of Some r \<Rightarrow> created_at r
                     | None \<Rightarrow> w_later_iso ?env),
       completed_at = Some (w_later_iso ?env)\<rparr>"
    by (simp add: sample_completed_def sample_pending_def)
  from success_writes_the_entry_fields
    [where env = ?env and mid = "''1700000000000-0''"
       and sb = "marked ?env sample_pending sample_queued" and rc = sample_completed,
     OF p sample_entry_fields(1) sample_entry_fields(2) _ _ _ _ first ok sb rc]
  obtain s' where
    "process_message ?env ''1700000000000-0'' (sample_entry ''pypdf'') sample_queued = (None, s')"
    "get_result None 60 sample_job s' = Inr (Some sample_completed)"
    "text_db s' (''result:'' @ sample_job) =
       Some (dict_exclude_none sample_completed, 60 + 3600)"
    "binary_db s' = binary_db sample_queued" "stream s' = stream sample_queued"
    "acked s' = {''1700000000000-0''}"
    "result_writes s' =
       [sample_pending, sample_pending\<lparr>status := PROCESSING\<rparr>, sample_completed]"
    by (auto simp: sample_work_def marked_def sample_queued_eq)
  with first ok show ?thesis by auto
qed

text \<open>
  C7, as stated, fails on the original record's fields. First, the producer's initial
  status write lands while the worker extracts: the original record is in the store
  when the completed record is written, and the completed record carries the worker's
  clock as \<^verbatim>\<open>created_at\<close>, not the original's. Second, the status key of the job
  holds a record with another file name and an error when the entry arrives: the
  completed record has the entry's file name and no error.
\<close>

theorem completed_record_is_built_from_the_entry:
  "get_result None 2 sample_job (producer_announces sample_unannounced)
     = Inr (Some sample_pending) \<and>
   created_at sample_pending = ''2023-11-14T22:13:20'' \<and>
   get_result None 2 sample_job
     (snd (process_message (announced_meanwhile answering) ''1700000000000-0''
             (sample_entry ''pypdf'') sample_unannounced))
     = Inr (Some (sample_completed\<lparr>created_at := ''2023-11-14T22:14:00+00:00''\<rparr>)) \<and>
   get_result None 5 sample_job sample_stale = Inr (Some stale_record) \<and>
   filename stale_record = ''old.pdf'' \<and> error stale_record = Some ''earlier failure'' \<and>
   get_result None 60 sample_job
     (snd (process_message (sample_work 5 60 answering) ''1700000000000-0''
             (sample_entry ''pypdf'') sample_stale))
     = Inr (Some sample_completed) \<and>
   filename sample_completed = ''a.pdf'' \<and> error sample_completed = None"
  by (simp add: unannounced_reads announced_reads stale_reads process_message_def process_try_def Let_def
      sample_entry_fields ParserType_of_def format_opt_def sample_work_def
      pypdf_answering get_result_written ttl_def sample_completed_def sample_pending_def
      stale_record_def)

section \<open>Gemini timeouts\<close>

lemma str_nat_3: "str_nat 3 = ''3''"
  by (simp add: str_nat.simps digit_char_def)

lemma timed_out_message_3:
  "timed_out_message 3 =
     ''Processing timed out after 3 attempts. The PDF may be too large or complex.''"
  by (simp add: timed_out_message_def str_nat_3)

lemma gemini_attempts_timeouts:
  "k \<le> retries \<Longrightarrow> left = Suc (retries - k) \<Longrightarrow>
   \<forall>i. k \<le> i \<and> i \<le> retries \<longrightarrow> (\<exists>m. up i = TimedOut m) \<Longrightarrow>
   gemini_attempts up retries k left = Inr (Some (timed_out_message retries))"
proof (induction left arbitrary: k)
  case 0
  then show ?case by simp
next
  case (Suc left)
  from Suc.prems obtain m where m: "up k = TimedOut m" by auto
  show ?case
  proof (cases "k = retries")
    case True
    then show ?thesis using m by simp
  next
    case False
    with Suc.prems have "Suc k \<le> retries" "left = Suc (retries - Suc k)" by auto
    moreover have "\<forall>i. Suc k \<le> i \<and> i \<le> retries \<longrightarrow> (\<exists>m. up i = TimedOut m)"
      using Suc.prems(3) by auto
    ultimately have
      "gemini_attempts up retries (Suc k) left = Inr (Some (timed_out_message retries))"
      by (rule Suc.IH)
    then show ?thesis using m False by simp
  qed
qed

lemma process_with_gemini_timeouts:
  "0 < retries \<Longrightarrow> \<forall>i. 1 \<le> i \<and> i \<le> retries \<longrightarrow> (\<exists>m. up i = TimedOut m) \<Longrightarrow>
   process_with_gemini up retries = Inr (Some (timed_out_message retries))"
  unfolding process_with_gemini_def
  by (rule gemini_attempts_timeouts) auto

text \<open>
  C9. When every attempt of \<^verbatim>\<open>process_with_gemini\<close> ends in an upstream timeout, the
  function returns the fixed sentence as its value and raises nothing; so for an entry
  with the Gemini parser whose two extraction calls both run out of attempts that way,
  the worker persists the job with \<^verbatim>\<open>status = completed\<close> and that sentence as
  content and as summary, and no error.
\<close>

theorem gemini_timeouts_end_as_completed:
  assumes "fault_free env"
    and "map_of data ''job_id'' = Some j"
    and "map_of data ''filename'' = Some f"
    and "map_of data ''parser'' = Some ''gemini''"
    and "get_result None (w_now env) j s = Inr before"
    and "get_pdf_data None (w_now env) (map_of data ''pdf_key'') s = Inr (Some pdf_data)"
    and "pdf_data \<noteq> []"
    and "\<forall>i. 1 \<le> i \<and> i \<le> 3 \<longrightarrow> (\<exists>m. content_attempts (w_upstream env) i = TimedOut m)"
    and "\<forall>i. 1 \<le> i \<and> i \<le> 3 \<longrightarrow> (\<exists>m. summary_attempts (w_upstream env) i = TimedOut m)"
  shows "process_with_gemini (content_attempts (w_upstream env)) 3 =
           Inr (Some ''Processing timed out after 3 attempts. The PDF may be too large or complex.'') \<and>
         (\<exists>s' r. process_message env mid data s = (None, s') \<and>
            get_result None (w_later env) j s' = Inr (Some r) \<and>
            status r = COMPLETED \<and>
            content r =
              Some ''Processing timed out after 3 attempts. The PDF may be too large or complex.'' \<and>
            summary r =
              Some ''Processing timed out after 3 attempts. The PDF may be too large or complex.'' \<and>
            error r = None)"
proof -
  have c: "process_with_gemini (content_attempts (w_upstream env)) 3 =
      Inr (Some ''Processing timed out after 3 attempts. The PDF may be too large or complex.'')"
    using process_with_gemini_timeouts [of 3, OF _ assms(8)] by (simp add: timed_out_message_3)
  have sm: "process_with_gemini (summary_attempts (w_upstream env)) 3 =
      Inr (Some ''Processing timed out after 3 attempts. The PDF may be too large or complex.'')"
    using process_with_gemini_timeouts [of 3, OF _ assms(9)] by (simp add: timed_out_message_3)
  have doc: "process_document (w_upstream env) pdf_data GEMINI (Some f) =
      Inr (Some ''Processing timed out after 3 attempts. The PDF may be too large or complex.'',
           Some ''Processing timed out after 3 attempts. The PDF may be too large or complex.'')"
    by (simp add: process_document_def c sm)
  from assms(1) have ff: "w_fault_get env = None" "w_fault_processing env = None"
      "w_fault_completed env = None" "w_fault_ack env = None" "w_fault_pdf env = None"
    by (simp_all add: fault_free_def)
  have p: "ParserType_of (map_of data ''parser'') = Some GEMINI"
    using assms(4) by (simp add: ParserType_of_def)
  have fe: "fetch_and_extract env (map_of data ''pdf_key'') GEMINI (Some f) s =
      Inr (Some ''Processing timed out after 3 attempts. The PDF may be too large or complex.'',
           Some ''Processing timed out after 3 attempts. The PDF may be too large or complex.'')"
    using assms(6,7) doc ff(5) by (simp add: fetch_and_extract_def)
  note t = try_succeeds [OF ff(1-4) assms(5) fe refl refl, of mid]
  have "\<exists>s' r. process_message env mid data s = (None, s') \<and>
            get_result None (w_later env) j s' = Inr (Some r) \<and>
            status r = COMPLETED \<and>
            content r =
              Some ''Processing timed out after 3 attempts. The PDF may be too large or complex.'' \<and>
            summary r =
              Some ''Processing timed out after 3 attempts. The PDF may be too large or complex.'' \<and>
            error r = None"
    unfolding process_message_def Let_def using p assms(2,3) t
    by (simp add: get_result_def live_def ttl_def)
  with c show ?thesis by simp
qed

lemma sample_gemini_queued_reads:
  "get_result None 5 sample_job sample_gemini_queued =
     Inr (Some (sample_pending\<lparr>parser := GEMINI\<rparr>))"
  "get_pdf_data None 5 (Some (pdf_key_of sample_job)) sample_gemini_queued =
     Inr (Some ''%PDF-1.4'')"
  by (simp_all add: sample_gemini_queued_def add_job_to_queue_def sample_enqueue_def Let_def
      empty_redis_def ttl_def sample_pending_def get_result_def get_pdf_data_def live_def)

theorem gemini_timeouts_end_as_completed_witness:
  "fault_free (sample_work 5 60 timing_out) \<and>
   process_with_gemini (content_attempts timing_out) 3 =
     Inr (Some ''Processing timed out after 3 attempts. The PDF may be too large or complex.'') \<and>
   (\<exists>s' r. process_message (sample_work 5 60 timing_out) ''1700000000000-0''
              (sample_entry ''gemini'') sample_gemini_queued = (None, s') \<and>
      get_result None 60 sample_job s' = Inr (Some r) \<and>
      status r = COMPLETED \<and>
      content r =
        Some ''Processing timed out after 3 attempts. The PDF may be too large or complex.'' \<and>
      summary r =
        Some ''Processing timed out after 3 attempts. The PDF may be too large or complex.'' \<and>
      error r = None)"
proof -
  let ?env = "sample_work 5 60 timing_out"
  have ff: "fault_free ?env" by simp
  have rec: "get_result None (w_now ?env) sample_job sample_gemini_queued =
      Inr (Some (sample_pending\<lparr>parser := GEMINI\<rparr>))"
    by (simp add: sample_gemini_queued_reads)
  have pdf: "get_pdf_data None (w_now ?env) (map_of (sample_entry ''gemini'') ''pdf_key'')
      sample_gemini_queued = Inr (Some ''%PDF-1.4'')"
    by (simp add: sample_gemini_queued_reads sample_entry_fields)
  have ne: "''%PDF-1.4'' \<noteq> []" by simp
  have c: "\<forall>i. 1 \<le> i \<and> i \<le> 3 \<longrightarrow>
      (\<exists>m. content_attempts (w_upstream ?env) i = TimedOut m)"
    by (simp add: timing_out_def)
  have sm: "\<forall>i. 1 \<le> i \<and> i \<le> 3 \<longrightarrow>
      (\<exists>m. summary_attempts (w_upstream ?env) i = TimedOut m)"
    by (simp add: timing_out_def)
  from gemini_timeouts_end_as_completed
    [OF ff sample_entry_fields(1) sample_entry_fields(2) sample_entry_fields(3) rec pdf ne c sm,
     of "''1700000000000-0''"]
  show ?thesis using ff by simp
qed

section \<open>A failed acknowledgment after the completed record is written\<close>

text \<open>
  The acknowledgment of the success path stands inside the \<^verbatim>\<open>try\<close>. When that one
  Redis command raises and the commands of the handler are answered, the handler reads
  the record just written as completed and writes it again as failed.
\<close>

text \<open>
  C3 says that a terminal record has exactly one of the two groups of fields: content
  and summary when completed, error when failed. At this input it does not hold: the
  call returns normally, and the record the job ends with has \<^verbatim>\<open>status = failed\<close>
  and carries content, summary and error together.
\<close>

theorem refused_ack_leaves_both_groups:
  "fst (process_message ack_refused ''1700000000000-0'' (sample_entry ''pypdf'') sample_queued)
     = None \<and>
   get_result None 60 sample_job
     (snd (process_message ack_refused ''1700000000000-0'' (sample_entry ''pypdf'')
             sample_queued))
     = Inr (Some (sample_pending\<lparr>status := FAILED, content := Some ''## Page 1 Hello'',
                    summary := Some ''Document is too short to summarize effectively.'',
                    error := Some ''Connection reset by peer'',
                    completed_at := Some ''2023-11-14T22:14:00+00:00''\<rparr>))"
  by (simp add: process_message_def process_try_def process_except_def Let_def
      sample_entry_fields ParserType_of_def format_opt_def ack_refused_def sample_work_def
      sample_queued_get sample_queued_pdf get_result_written ttl_def
      process_document_def answering_def extract_with_pypdf_def generate_summary_def
      py_strip_def py_isspace_def sample_pending_def)

text \<open>
  C4 says that the status of a job only moves forward and that no write changes a
  record that is terminal. At this input it does not hold: the statuses written for the
  job, in order, are pending, processing, completed, failed, and the last write changes
  a record that was completed.
\<close>

theorem refused_ack_rewrites_a_terminal_record:
  "map status
     (result_writes
        (snd (process_message ack_refused ''1700000000000-0'' (sample_entry ''pypdf'')
                sample_queued)))
     = [PENDING, PROCESSING, COMPLETED, FAILED] \<and>
   map job_id
     (result_writes
        (snd (process_message ack_refused ''1700000000000-0'' (sample_entry ''pypdf'')
                sample_queued)))
     = [sample_job, sample_job, sample_job, sample_job]"
  by (simp add: process_message_def process_try_def process_except_def Let_def
      sample_entry_fields ParserType_of_def format_opt_def ack_refused_def sample_work_def
      sample_queued_get sample_queued_pdf get_result_written ttl_def
      process_document_def answering_def extract_with_pypdf_def generate_summary_def
      py_strip_def py_isspace_def sample_queued_writes sample_pending_def)

lemma gemini_attempts_some:
  "k \<le> retries \<Longrightarrow> left = Suc (retries - k) \<Longrightarrow>
   gemini_attempts up retries k left \<noteq> Inr None"
proof (induction left arbitrary: k)
  case 0
  then show ?case by simp
next
  case (Suc left)
  show ?case
  proof (cases "k = retries")
    case True
    then show ?thesis by (simp split: attempt.splits)
  next
    case False
    with Suc.prems have "Suc k \<le> retries" "left = Suc (retries - Suc k)" by auto
    then have "gemini_attempts up retries (Suc k) left \<noteq> Inr None" by (rule Suc.IH)
    then show ?thesis using False by (simp split: attempt.splits)
  qed
qed

lemma process_document_populated:
  "process_document up pdf_data p fname = Inr (c, sm) \<Longrightarrow> c \<noteq> None \<and> sm \<noteq> None"
  using gemini_attempts_some [of 1 3 3 "content_attempts up"]
        gemini_attempts_some [of 1 3 3 "summary_attempts up"]
  by (auto simp: process_document_def process_with_gemini_def
      split: ParserType.splits sum.splits)

text \<open>
  Apart from that one fault the worker keeps both properties, whatever the other Redis
  commands of the call do: when the acknowledgment of the success path is answered, no
  other client writes during the call and the record of the job is absent or the
  pending one, a call of \<^verbatim>\<open>process_message\<close> writes statuses in forward order only,
  and every record it writes has exactly its own group of fields.
\<close>

lemma fresh_get:
  "fresh_for j s \<Longrightarrow>
   get_result None t j s = Inr None \<or>
   (\<exists>r. get_result None t j s = Inr (Some r) \<and> job_id r = j \<and> status r = PENDING \<and>
        one_group r \<and> (\<exists>e. text_db s (result_key j) = Some (dict_exclude_none r, e)))"
  by (auto simp: fresh_for_def get_result_def live_def split: option.splits prod.splits)

lemma try_outcome_absent:
  assumes "w_fault_ack env = None" and "w_meanwhile env = (\<lambda>s. s)"
    and "get_result None (w_now env) j s = Inr None"
    and "process_try env mid (Some j) (Some f) p pk s = (x, s1)"
  shows "(x \<noteq> None \<and> s1 = s) \<or>
         (x = None \<and> (\<exists>r. job_id r = j \<and> status r = COMPLETED \<and> one_group r \<and>
              result_writes s1 = result_writes s @ [r]))"
  using assms unfolding process_try_def
  by (cases "w_fault_get env"; cases "w_fault_pdf env"; cases "w_fault_completed env")
     (auto simp: format_opt_def one_group_def
        split: sum.splits option.splits prod.splits if_splits dest: process_document_populated)

lemma try_outcome_found:
  assumes "w_fault_ack env = None" and "w_meanwhile env = (\<lambda>s. s)"
    and "get_result None (w_now env) j s = Inr (Some r0)"
    and "job_id r0 = j" and "status r0 = PENDING" and "one_group r0"
    and "process_try env mid (Some j) (Some f) p pk s = (x, s1)"
  shows "(x \<noteq> None \<and> (s1 = s \<or> s1 = marked env r0 s)) \<or>
         (x = None \<and> (\<exists>r. job_id r = j \<and> status r = COMPLETED \<and> one_group r \<and>
              result_writes s1 = result_writes s @ [r0\<lparr>status := PROCESSING\<rparr>, r]))"
  using assms unfolding process_try_def marked_def
  by (cases "w_fault_get env"; cases "w_fault_processing env"; cases "w_fault_pdf env";
      cases "w_fault_completed env")
     (auto simp: format_opt_def one_group_def
        split: sum.splits option.splits prod.splits if_splits dest: process_document_populated)


lemma except_writes_raw:
  assumes "get_result None (w_later env) j s1 = Inr found"
    and "process_except env mid (Some j) e s1 = (x, s')"
  shows "result_writes s' = result_writes s1 \<or>
         (\<exists>r0. found = Some r0 \<and>
            result_writes s' = result_writes s1 @
              [r0\<lparr>status := FAILED, error := Some (str_exn e),
                  completed_at := Some (w_later_iso env)\<rparr>])"
  using assms unfolding process_except_def
  by (cases "h_fault_get env"; cases "h_fault_failed env"; cases "h_fault_ack env"; cases found)
     (auto simp: format_opt_def)

lemma failed_group:
  "status r \<noteq> COMPLETED \<Longrightarrow> status r \<noteq> FAILED \<Longrightarrow> one_group r \<Longrightarrow>
   one_group (r\<lparr>status := FAILED, error := Some m, completed_at := c\<rparr>)"
  by (cases "status r") (auto simp: one_group_def)

lemma except_writes:
  assumes "get_result None (w_later env) j s1 = Inr found"
    and "\<forall>r. found = Some r \<longrightarrow>
           job_id r = j \<and> status r \<noteq> COMPLETED \<and> status r \<noteq> FAILED \<and> one_group r"
    and "process_except env mid (Some j) e s1 = (x, s')"
  shows "result_writes s' = result_writes s1 \<or>
         (\<exists>r. job_id r = j \<and> status r = FAILED \<and> one_group r \<and>
              result_writes s' = result_writes s1 @ [r])"
proof -
  from except_writes_raw [OF assms(1,3)] show ?thesis
  proof
    assume "result_writes s' = result_writes s1"
    then show ?thesis by simp
  next
    assume "\<exists>r0. found = Some r0 \<and>
            result_writes s' = result_writes s1 @
              [r0\<lparr>status := FAILED, error := Some (str_exn e),
                  completed_at := Some (w_later_iso env)\<rparr>]"
    then obtain r0 where r0: "found = Some r0"
      "result_writes s' = result_writes s1 @
         [r0\<lparr>status := FAILED, error := Some (str_exn e),
             completed_at := Some (w_later_iso env)\<rparr>]" by auto
    with assms(2) have "job_id r0 = j" "status r0 \<noteq> COMPLETED" "status r0 \<noteq> FAILED"
      "one_group r0" by auto
    with r0(2) failed_group [where r = r0 and m = "str_exn e" and c = "Some (w_later_iso env)"]
    have "job_id (r0\<lparr>status := FAILED, error := Some (str_exn e),
             completed_at := Some (w_later_iso env)\<rparr>) = j \<and>
          status (r0\<lparr>status := FAILED, error := Some (str_exn e),
             completed_at := Some (w_later_iso env)\<rparr>) = FAILED \<and>
          one_group (r0\<lparr>status := FAILED, error := Some (str_exn e),
             completed_at := Some (w_later_iso env)\<rparr>)"
      by simp
    with r0(2) show ?thesis by blast
  qed
qed

lemma marked_get:
  "job_id r0 = j \<Longrightarrow> status r0 = PENDING \<Longrightarrow> one_group r0 \<Longrightarrow>
   \<exists>found. get_result None t j (marked env r0 s) = Inr found \<and>
     (\<forall>r. found = Some r \<longrightarrow>
        job_id r = j \<and> status r \<noteq> COMPLETED \<and> status r \<noteq> FAILED \<and> one_group r)"
  by (auto simp: marked_def get_result_written one_group_def)

lemma fresh_get_handler:
  "fresh_for j s \<Longrightarrow>
   \<exists>found. get_result None t j s = Inr found \<and>
     (\<forall>r. found = Some r \<longrightarrow>
        job_id r = j \<and> status r \<noteq> COMPLETED \<and> status r \<noteq> FAILED \<and> one_group r)"
  using fresh_get [of j s t] by auto

lemma call_writes_without_refused_ack:
  assumes ack: "w_fault_ack env = None"
    and alone: "w_meanwhile env = (\<lambda>s. s)"
    and j: "map_of data ''job_id'' = Some j"
    and f: "map_of data ''filename'' = Some f"
    and p: "ParserType_of (map_of data ''parser'') = Some p"
    and fresh: "fresh_for j s"
    and run: "process_message env mid data s = (x, s')"
  shows "\<exists>ws. result_writes s' = result_writes s @ ws \<and>
           map status ws \<in> {[], [PROCESSING], [COMPLETED], [FAILED],
                              [PROCESSING, COMPLETED], [PROCESSING, FAILED]} \<and>
           list_all one_group ws \<and> list_all (\<lambda>r. job_id r = j) ws"
proof -
  obtain y s1 where t: "process_try env mid (Some j) (Some f) p (map_of data ''pdf_key'') s = (y, s1)"
    by (cases "process_try env mid (Some j) (Some f) p (map_of data ''pdf_key'') s") auto
  have pm: "(y = None \<and> x = None \<and> s' = s1) \<or>
            (\<exists>e. y = Some e \<and> process_except env mid (Some j) e s1 = (x, s'))"
    using run j f p t unfolding process_message_def Let_def by (cases y) auto
  from fresh_get [OF fresh, of "w_now env"]
  show ?thesis
  proof
    assume none: "get_result None (w_now env) j s = Inr None"
    from try_outcome_absent [OF ack alone none t]
    show ?thesis
    proof
      assume a: "y \<noteq> None \<and> s1 = s"
      with pm obtain e where e: "process_except env mid (Some j) e s = (x, s')" by auto
      from fresh_get_handler [OF fresh, of "w_later env"] obtain found where
        "get_result None (w_later env) j s = Inr found"
        "\<forall>r. found = Some r \<longrightarrow>
           job_id r = j \<and> status r \<noteq> COMPLETED \<and> status r \<noteq> FAILED \<and> one_group r"
        by auto
      from except_writes [OF this e] show ?thesis by auto
    next
      assume "y = None \<and> (\<exists>r. job_id r = j \<and> status r = COMPLETED \<and> one_group r \<and>
              result_writes s1 = result_writes s @ [r])"
      with pm show ?thesis by auto
    qed
  next
    assume "\<exists>r. get_result None (w_now env) j s = Inr (Some r) \<and> job_id r = j \<and>
        status r = PENDING \<and> one_group r \<and>
        (\<exists>e. text_db s (result_key j) = Some (dict_exclude_none r, e))"
    then obtain r0 where r0: "get_result None (w_now env) j s = Inr (Some r0)"
      "job_id r0 = j" "status r0 = PENDING" "one_group r0" by auto
    have r0p: "one_group (r0\<lparr>status := PROCESSING\<rparr>)"
      using r0 by (simp add: one_group_def)
    from try_outcome_found [OF ack alone r0 t]
    show ?thesis
    proof
      assume a: "y \<noteq> None \<and> (s1 = s \<or> s1 = marked env r0 s)"
      with pm obtain e where e: "process_except env mid (Some j) e s1 = (x, s')" by auto
      from a show ?thesis
      proof (elim conjE disjE)
        assume "s1 = s"
        from fresh_get_handler [OF fresh, of "w_later env"] obtain found where
          "get_result None (w_later env) j s = Inr found"
          "\<forall>r. found = Some r \<longrightarrow>
             job_id r = j \<and> status r \<noteq> COMPLETED \<and> status r \<noteq> FAILED \<and> one_group r"
          by auto
        from except_writes [OF this e [unfolded \<open>s1 = s\<close>]] show ?thesis by auto
      next
        assume m: "s1 = marked env r0 s"
        from marked_get [OF r0(2-4), of "w_later env" env s] obtain found where
          "get_result None (w_later env) j (marked env r0 s) = Inr found"
          "\<forall>r. found = Some r \<longrightarrow>
             job_id r = j \<and> status r \<noteq> COMPLETED \<and> status r \<noteq> FAILED \<and> one_group r"
          by auto
        from except_writes [OF this e [unfolded m]] r0 r0p show ?thesis
          by (auto simp: marked_def)
      qed
    next
      assume "y = None \<and> (\<exists>r. job_id r = j \<and> status r = COMPLETED \<and> one_group r \<and>
              result_writes s1 = result_writes s @ [r0\<lparr>status := PROCESSING\<rparr>, r])"
      with pm r0 r0p show ?thesis by auto
    qed
  qed
qed

text \<open>
  The producer writes the pending record after it has appended the entry. When the
  worker has completed the job before that write arrives, the write puts the job back
  to pending: the statuses written for the job are completed, then pending, and the
  job stays pending.
\<close>

lemma unannounced_writes: "result_writes sample_unannounced = []"
  by (simp add: sample_unannounced_eq)

lemma late_announcement_revisits_pending:
  "fst (process_message (sample_work 0 2 answering) ''1700000000000-0'' (sample_entry ''pypdf'')
          sample_unannounced) = None \<and>
   map status
     (result_writes
        (producer_announces
           (snd (process_message (sample_work 0 2 answering) ''1700000000000-0''
                   (sample_entry ''pypdf'') sample_unannounced))))
     = [COMPLETED, PENDING] \<and>
   get_result None 2 sample_job
     (producer_announces
        (snd (process_message (sample_work 0 2 answering) ''1700000000000-0''
                (sample_entry ''pypdf'') sample_unannounced)))
     = Inr (Some sample_pending)"
  by (simp add: process_message_def process_try_def Let_def sample_entry_fields
      ParserType_of_def format_opt_def sample_work_def unannounced_reads pypdf_answering
      producer_announces_def get_result_written ttl_def sample_pending_def
      unannounced_writes)

section \<open>Keys and expiry\<close>

text \<open>
  C6, as the code has it. The payload of a job is stored under \<^verbatim>\<open>pdf:\<close> followed
  by the job id, its status record under \<^verbatim>\<open>result:\<close> followed by the job id, and the
  entry carries the payload key. The payload write and every status write
  (\<^verbatim>\<open>save_result\<close>) expire 3600 seconds after the write: the value is read back
  before that second and is gone from it on.
\<close>

theorem keys_and_one_hour_expiry:
  assumes "add_job_to_queue env jid fname pdf_data p s = (Inr mid, s1)"
    and "save_result None now r s0 = Inr s2"
  shows "binary_db s1 (''pdf:'' @ jid) = Some (pdf_data, q_now env + 3600) \<and>
         text_db s1 (''result:'' @ jid) =
           Some (dict_exclude_none
                   \<lparr>job_id = jid, filename = fname, parser = p, status = PENDING,
                    content = None, summary = None, error = None,
                    created_at = q_created_at env, completed_at = None\<rparr>,
                 q_now env + 3600) \<and>
         map_of (snd (last (stream s1))) ''pdf_key'' = Some (''pdf:'' @ jid) \<and>
         text_db s2 (''result:'' @ job_id r) = Some (dict_exclude_none r, now + 3600) \<and>
         (\<forall>t. get_pdf_data None t (Some (''pdf:'' @ jid)) s1 =
                Inr (if t < q_now env + 3600 then Some pdf_data else None)) \<and>
         (\<forall>t. get_result None t (job_id r) s2 =
                Inr (if t < now + 3600 then Some r else None))"
  using assms
  by (auto simp: add_job_to_queue_def Let_def pdf_key_of_def result_key_def ttl_def
      get_pdf_data_def get_result_def live_def save_result_def
      split: option.splits sum.splits)

theorem keys_and_one_hour_expiry_witness:
  "fst (add_job_to_queue sample_enqueue sample_job ''a.pdf'' ''%PDF-1.4'' PYPDF empty_redis)
     = Inr ''1700000000000-0'' \<and>
   binary_db sample_queued (''pdf:'' @ sample_job) = Some (''%PDF-1.4'', 0 + 3600) \<and>
   text_db sample_queued (''result:'' @ sample_job) =
     Some (dict_exclude_none sample_pending, 0 + 3600) \<and>
   get_pdf_data None 3599 (Some (''pdf:'' @ sample_job)) sample_queued = Inr (Some ''%PDF-1.4'') \<and>
   get_pdf_data None 3600 (Some (''pdf:'' @ sample_job)) sample_queued = Inr None \<and>
   (\<exists>s2. save_result None 7 sample_pending empty_redis = Inr s2 \<and>
      text_db s2 (''result:'' @ sample_job) = Some (dict_exclude_none sample_pending, 7 + 3600) \<and>
      get_result None 3606 sample_job s2 = Inr (Some sample_pending) \<and>
      get_result None 3607 sample_job s2 = Inr None)"
proof -
  have q: "add_job_to_queue sample_enqueue sample_job ''a.pdf'' ''%PDF-1.4'' PYPDF empty_redis
      = (Inr ''1700000000000-0'', sample_queued)"
    by (simp add: sample_queued_def add_job_to_queue_def sample_enqueue_def Let_def)
  obtain s2 where s2: "save_result None 7 sample_pending empty_redis = Inr s2" by simp
  from keys_and_one_hour_expiry [OF q s2] q s2 show ?thesis
    by (simp add: sample_enqueue_def sample_pending_def)
qed

text \<open>
  C6, as stated, fails: after a job is queued nothing is stored under
  \<^verbatim>\<open>payload:\<close> or \<^verbatim>\<open>status:\<close> followed by its id.
\<close>

theorem no_payload_or_status_prefix:
  "fst (add_job_to_queue sample_enqueue sample_job ''a.pdf'' ''%PDF-1.4'' PYPDF empty_redis)
     = Inr ''1700000000000-0'' \<and>
   binary_db sample_queued (''payload:'' @ sample_job) = None \<and>
   text_db sample_queued (''status:'' @ sample_job) = None"
  by (simp add: sample_queued_def add_job_to_queue_def sample_enqueue_def Let_def
      empty_redis_def pdf_key_of_def result_key_def)

section \<open>The status query\<close>

lemma poll_reads_mono:
  "reads \<le> snd (poll faults store jid start now result reads)"
proof (induction faults store jid start now result reads rule: poll.induct)
  case (1 faults store jid start now result reads)
  show ?case
    by (subst poll.simps)
       (auto split: sum.splits option.splits dest!: "1.IH" intro: Suc_leD)
qed

lemma poll_first_read:
  "snd (poll faults store jid start start None 0) \<noteq> 0"
proof -
  have "Suc 0 \<le> snd (poll faults store jid start (start + 2) res (Suc 0))" for res
    by (rule poll_reads_mono)
  then show ?thesis
    by (subst poll.simps) (auto split: sum.splits option.splits simp: Suc_le_eq)
qed

lemma sample_ids:
  "sample_job \<noteq> []" "py_strip sample_job \<noteq> []" "uuid_UUID_ok sample_job"
  "\<not> uuid_UUID_ok ''not-a-uuid''"
  "misplaced_hyphen_id \<noteq> []" "py_strip misplaced_hyphen_id \<noteq> []"
  "uuid_UUID_ok misplaced_hyphen_id"
  "prefixed_id \<noteq> []" "py_strip prefixed_id \<noteq> []" "uuid_UUID_ok prefixed_id"
  by (simp_all add: sample_job_def misplaced_hyphen_id_def prefixed_id_def py_strip_def
      py_isspace_def uuid_UUID_ok_def uuid_hex_def remove_all_def strip_braces_def is_brace_def
      int16_ok_def int_isspace_def is_hex_digit_def Let_def)

lemma remove_from_absent:
  "c \<notin> set s \<Longrightarrow> remove_from (c # pat) 0 s = s"
  by (induction s) auto

lemma dropWhile_hd:
  "xs \<noteq> [] \<Longrightarrow> \<not> P (hd xs) \<Longrightarrow> dropWhile P xs = xs"
  by (cases xs) auto

lemma dropWhile_last:
  "xs \<noteq> [] \<Longrightarrow> \<not> P (last xs) \<Longrightarrow> dropWhile P (rev xs) = rev xs"
  by (rule dropWhile_hd) (simp_all add: hd_rev)

lemma strip_braces_id:
  "s \<noteq> [] \<Longrightarrow> \<not> is_brace (hd s) \<Longrightarrow> \<not> is_brace (last s) \<Longrightarrow> strip_braces s = s"
  by (simp add: strip_braces_def dropWhile_hd dropWhile_last)

lemma hex_facts:
  "is_hex_digit c \<Longrightarrow>
   \<not> int_isspace c \<and> c \<noteq> CHR ''+'' \<and> c \<noteq> CHR ''-'' \<and> c \<noteq> CHR ''x'' \<and> c \<noteq> CHR ''X'' \<and>
   c \<noteq> CHR ''_'' \<and> \<not> is_brace c \<and> c \<noteq> CHR ''u'' \<and> \<not> py_isspace c"
proof -
  have "\<forall>c\<in>set ''0123456789abcdefABCDEF''.
      \<not> int_isspace c \<and> c \<noteq> CHR ''+'' \<and> c \<noteq> CHR ''-'' \<and> c \<noteq> CHR ''x'' \<and> c \<noteq> CHR ''X'' \<and>
      c \<noteq> CHR ''_'' \<and> \<not> is_brace c \<and> c \<noteq> CHR ''u'' \<and> \<not> py_isspace c"
    by (simp add: int_isspace_def is_brace_def py_isspace_def)
  then show "is_hex_digit c \<Longrightarrow> ?thesis"
    unfolding is_hex_digit_def by blast
qed

lemma digits_ok_hex:
  "s \<noteq> [] \<Longrightarrow> list_all is_hex_digit s \<Longrightarrow> digits_ok s"
  by (induction s rule: digits_ok.induct) (auto dest: hex_facts)

lemma int16_ok_hex:
  assumes "2 \<le> length s" and "list_all is_hex_digit s"
  shows "int16_ok s"
proof -
  from assms obtain a b r where s: "s = a # b # r"
    by (cases s; cases "tl s") auto
  with assms have h: "is_hex_digit a" "is_hex_digit b" "is_hex_digit (last s)"
    by (auto simp: list_all_iff)
  have r: "rev s \<noteq> []" "hd (rev s) = last s" using s by (auto simp: hd_rev)
  have d1: "dropWhile int_isspace s = s" using s h hex_facts[of a] by simp
  have d2: "dropWhile int_isspace (rev s) = rev s"
    using s h(3) hex_facts[of "last s"] by (intro dropWhile_last) auto
  have dk: "digits_ok s" using assms s by (intro digits_ok_hex) auto
  have u: "(case s of [] \<Rightarrow> []
            | c # r \<Rightarrow> if c = CHR ''+'' \<or> c = CHR ''-'' then r else s) = s"
    using s hex_facts [OF h(1)] by simp
  have t2: "take 2 s \<noteq> ''0x''" "take 2 s \<noteq> ''0X''"
    using s hex_facts [OF h(2)] by simp_all
  show ?thesis
    unfolding int16_ok_def Let_def d1 d2 rev_rev_ident u using t2 dk by simp
qed

lemma canonical_split:
  assumes "canonical_uuid x"
  shows "x = take 8 x @ CHR ''-'' # take 4 (drop 9 x) @ CHR ''-'' # take 4 (drop 14 x) @
             CHR ''-'' # take 4 (drop 19 x) @ CHR ''-'' # drop 24 x"
proof -
  from assms have l: "length x = 36"
    and h: "x ! 8 = CHR ''-''" "x ! 13 = CHR ''-''" "x ! 18 = CHR ''-''" "x ! 23 = CHR ''-''"
    by (simp_all add: canonical_uuid_def)
  have a: "drop 8 x = CHR ''-'' # drop 9 x" using Cons_nth_drop_Suc[of 8 x] l h by simp
  have b: "drop 13 x = CHR ''-'' # drop 14 x" using Cons_nth_drop_Suc[of 13 x] l h by simp
  have c: "drop 18 x = CHR ''-'' # drop 19 x" using Cons_nth_drop_Suc[of 18 x] l h by simp
  have d: "drop 23 x = CHR ''-'' # drop 24 x" using Cons_nth_drop_Suc[of 23 x] l h by simp
  have "x = take 8 x @ drop 8 x" by (rule append_take_drop_id [symmetric])
  also have "drop 8 x = CHR ''-'' # drop 9 x" by (rule a)
  also have "drop 9 x = take 4 (drop 9 x) @ drop 4 (drop 9 x)"
    by (rule append_take_drop_id [symmetric])
  also have "drop 4 (drop 9 x) = CHR ''-'' # drop 14 x" using b by simp
  also have "drop 14 x = take 4 (drop 14 x) @ drop 4 (drop 14 x)"
    by (rule append_take_drop_id [symmetric])
  also have "drop 4 (drop 14 x) = CHR ''-'' # drop 19 x" using c by simp
  also have "drop 19 x = take 4 (drop 19 x) @ drop 4 (drop 19 x)"
    by (rule append_take_drop_id [symmetric])
  also have "drop 4 (drop 19 x) = CHR ''-'' # drop 24 x" using d by simp
  finally show ?thesis .
qed

text \<open>
  Every well-formed UUID passes the validation of the status query: it is not empty,
  not blank, and \<^verbatim>\<open>uuid.UUID\<close> accepts it.
\<close>

lemma well_formed_id_passes_validation:
  assumes "canonical_uuid x"
  shows "x \<noteq> [] \<and> py_strip x \<noteq> [] \<and> uuid_UUID_ok x"
proof -
  let ?A = "take 8 x" and ?B = "take 4 (drop 9 x)" and ?C = "take 4 (drop 14 x)"
    and ?D = "take 4 (drop 19 x)" and ?E = "drop 24 x"
  from assms have l: "length x = 36"
    and hx: "list_all is_hex_digit (?A @ ?B @ ?C @ ?D @ ?E)"
    by (simp_all add: canonical_uuid_def)
  note sp = canonical_split [OF assms]
  have nd: "\<And>c. is_hex_digit c \<Longrightarrow> c \<noteq> CHR ''-''" using hex_facts by blast
  have fl: "filter (\<lambda>c. c \<noteq> CHR ''-'') ys = ys" if "list_all is_hex_digit ys" for ys
    using that nd by (induction ys) auto
  have f: "filter (\<lambda>c. c \<noteq> CHR ''-'') x = ?A @ ?B @ ?C @ ?D @ ?E"
    using hx by (subst sp) (simp add: fl)
  have len: "length (?A @ ?B @ ?C @ ?D @ ?E) = 32" using l by simp
  have all: "\<forall>c\<in>set x. is_hex_digit c \<or> c = CHR ''-''"
    using hx by (subst sp) (auto simp: list_all_iff)
  then have nu: "CHR ''u'' \<notin> set x" using hex_facts by auto
  have r1: "remove_all ''urn:'' x = x" using nu by (simp add: remove_all_def remove_from_absent)
  have r2: "remove_all ''uuid:'' x = x" using nu by (simp add: remove_all_def remove_from_absent)
  have ne: "x \<noteq> []" using l by auto
  have "hd x = hd ?A" using l by (cases x) auto
  moreover have "is_hex_digit (hd ?A)" using hx l by (cases x) (auto)
  ultimately have h1: "\<not> is_brace (hd x)" using hex_facts by auto
  have "last x = last ?E" using l by (simp add: last_drop)
  moreover have "is_hex_digit (last ?E)"
  proof -
    have "?E \<noteq> []" using l by simp
    then have "last ?E \<in> set ?E" by (rule last_in_set)
    with hx show ?thesis by (auto simp: list_all_iff)
  qed
  ultimately have h2: "\<not> is_brace (last x)" using hex_facts by auto
  have sb: "strip_braces x = x" using ne h1 h2 by (rule strip_braces_id)
  have uh: "uuid_hex x = ?A @ ?B @ ?C @ ?D @ ?E"
    by (simp only: uuid_hex_def r1 r2 sb f)
  have ok: "uuid_UUID_ok x"
    unfolding uuid_UUID_ok_def uh
    using len hx by (intro conjI int16_ok_hex) simp_all
  have p1: "\<not> py_isspace (hd x)"
    using \<open>hd x = hd ?A\<close> \<open>is_hex_digit (hd ?A)\<close> hex_facts by auto
  have p2: "\<not> py_isspace (last x)"
    using \<open>last x = last ?E\<close> \<open>is_hex_digit (last ?E)\<close> hex_facts by auto
  have "py_strip x = x"
    using ne p1 p2 by (simp add: py_strip_def dropWhile_hd dropWhile_last)
  with ne ok show ?thesis by simp
qed

text \<open>
  C8, as the code has it. A job id that is empty, blank or refused by \<^verbatim>\<open>uuid.UUID\<close>
  is answered with the validation error (status 400, with the detail of its check)
  without a single read of the status store: the answer does not depend on Redis or on
  the clock. These are the only ids answered so: for every other id the status store
  is read at least once.
\<close>

theorem refused_id_is_rejected_before_any_read:
  "(jid = [] \<or> py_strip jid = [] \<or> \<not> uuid_UUID_ok jid \<longrightarrow>
      get_job_status faults store start jid
        = (Inl (HTTPException 400
                  (if jid = [] \<or> py_strip jid = [] then ''Job ID is required''
                   else ''Invalid job ID format'')), 0) \<and>
      get_job_status faults store start jid = get_job_status faults' store' start' jid) \<and>
   (jid \<noteq> [] \<and> py_strip jid \<noteq> [] \<and> uuid_UUID_ok jid \<longrightarrow>
      snd (get_job_status faults store start jid) \<noteq> 0)"
proof (intro conjI impI)
  assume "jid = [] \<or> py_strip jid = [] \<or> \<not> uuid_UUID_ok jid"
  then show "get_job_status faults store start jid
        = (Inl (HTTPException 400
                  (if jid = [] \<or> py_strip jid = [] then ''Job ID is required''
                   else ''Invalid job ID format'')), 0)"
    by (auto simp: get_job_status_def)
next
  assume "jid = [] \<or> py_strip jid = [] \<or> \<not> uuid_UUID_ok jid"
  then show "get_job_status faults store start jid = get_job_status faults' store' start' jid"
    by (auto simp: get_job_status_def)
next
  assume "jid \<noteq> [] \<and> py_strip jid \<noteq> [] \<and> uuid_UUID_ok jid"
  then have "snd (get_job_status faults store start jid) =
      snd (poll faults store jid start start None 0)"
    by (cases "poll faults store jid start start None 0")
       (auto simp: get_job_status_def split: sum.splits option.splits)
  then show "snd (get_job_status faults store start jid) \<noteq> 0"
    by (simp add: poll_first_read)
qed

theorem refused_id_is_rejected_before_any_read_witness:
  "\<not> uuid_UUID_ok ''not-a-uuid'' \<and>
   get_job_status (\<lambda>t. None) (\<lambda>t. sample_queued) 0 ''not-a-uuid''
     = (Inl (HTTPException 400 ''Invalid job ID format''), 0) \<and>
   get_job_status (\<lambda>t. None) (\<lambda>t. sample_queued) 0 []
     = (Inl (HTTPException 400 ''Job ID is required''), 0) \<and>
   uuid_UUID_ok sample_job \<and>
   snd (get_job_status (\<lambda>t. None) (\<lambda>t. sample_queued) 0 sample_job) \<noteq> 0"
proof -
  note a = refused_id_is_rejected_before_any_read
    [where jid = "''not-a-uuid''" and faults = "\<lambda>t. None" and store = "\<lambda>t. sample_queued"
       and start = 0, THEN conjunct1, THEN mp, THEN conjunct1]
  note b = refused_id_is_rejected_before_any_read
    [where jid = "[]" and faults = "\<lambda>t. None" and store = "\<lambda>t. sample_queued"
       and start = 0, THEN conjunct1, THEN mp, THEN conjunct1]
  note c = refused_id_is_rejected_before_any_read
    [where jid = sample_job and faults = "\<lambda>t. None" and store = "\<lambda>t. sample_queued"
       and start = 0, THEN conjunct2, THEN mp]
  have ra: "get_job_status (\<lambda>t. None) (\<lambda>t. sample_queued) 0 ''not-a-uuid''
      = (Inl (HTTPException 400 ''Invalid job ID format''), 0)"
    using a sample_ids(4) by (simp add: py_strip_def py_isspace_def)
  have rb: "get_job_status (\<lambda>t. None) (\<lambda>t. sample_queued) 0 []
      = (Inl (HTTPException 400 ''Job ID is required''), 0)"
    using b by simp
  have rc: "snd (get_job_status (\<lambda>t. None) (\<lambda>t. sample_queued) 0 sample_job) \<noteq> 0"
    using c sample_ids(1-3) by simp
  from ra rb rc sample_ids(3,4) show ?thesis by simp
qed

text \<open>
  C8, as stated, fails: \<^verbatim>\<open>uuid.UUID\<close> accepts ids that are no well-formed UUID, and
  for those the status store is read. The digits of the sample id with one hyphen, out
  of place, and the text \<^verbatim>\<open>0x\<close> followed by thirty digits (not even made of
  hexadecimal digits and hyphens) both pass the validation; the query reads the status
  store once and answers not-found.
\<close>

theorem ill_formed_ids_reach_the_store:
  "\<not> canonical_uuid misplaced_hyphen_id \<and>
   get_job_status (\<lambda>t. None) (\<lambda>t. empty_redis) 0 misplaced_hyphen_id
     = (Inl (HTTPException 404 ''Job not found''), 1) \<and>
   \<not> canonical_uuid prefixed_id \<and>
   \<not> list_all (\<lambda>c. is_hex_digit c \<or> c = CHR ''-'') prefixed_id \<and>
   get_job_status (\<lambda>t. None) (\<lambda>t. empty_redis) 0 prefixed_id
     = (Inl (HTTPException 404 ''Job not found''), 1)"
proof -
  have a: "\<not> canonical_uuid misplaced_hyphen_id" "\<not> canonical_uuid prefixed_id"
    "\<not> list_all (\<lambda>c. is_hex_digit c \<or> c = CHR ''-'') prefixed_id"
    by (simp_all add: canonical_uuid_def misplaced_hyphen_id_def prefixed_id_def
        is_hex_digit_def)
  have p: "poll (\<lambda>t. None) (\<lambda>t. empty_redis) jid 0 0 None 0
      = (Inl (HTTPException 404 ''Job not found''), 1)" for jid
    by (subst poll.simps) (simp add: get_result_def live_def empty_redis_def)
  from a p sample_ids(5-10) show ?thesis
    by (simp add: get_job_status_def)
qed

lemma poll_step:
  "i < 150 \<Longrightarrow> waiting faults store jid start i \<Longrightarrow>
   poll faults store jid start (start + 2 * i) res i =
   poll faults store jid start (start + 2 * Suc i) (seen faults store jid start (Suc i)) (Suc i)"
  by (subst poll.simps)
     (auto simp: waiting_def observe_def seen_def split: sum.splits option.splits)

lemma poll_waiting:
  "k \<le> 150 \<Longrightarrow> \<forall>i<k. waiting faults store jid start i \<Longrightarrow>
   poll faults store jid start start None 0 =
   poll faults store jid start (start + 2 * k) (seen faults store jid start k) k"
proof (induction k)
  case 0
  then show ?case by (simp add: seen_def)
next
  case (Suc k)
  then have "poll faults store jid start start None 0 =
      poll faults store jid start (start + 2 * k) (seen faults store jid start k) k"
    by simp
  also have "\<dots> = poll faults store jid start (start + 2 * Suc k)
      (seen faults store jid start (Suc k)) (Suc k)"
    using Suc.prems by (intro poll_step) auto
  finally show ?case .
qed

lemma poll_terminal:
  assumes "k < 150" "\<forall>i<k. waiting faults store jid start i"
    "observe faults store jid start k = Inr (Some r)" "terminal (status r)"
  shows "poll faults store jid start start None 0 = (Inr (Some r), Suc k)"
proof -
  have "poll faults store jid start start None 0 =
      poll faults store jid start (start + 2 * k) (seen faults store jid start k) k"
    using assms by (intro poll_waiting) auto
  also have "\<dots> = (Inr (Some r), Suc k)"
    using assms by (subst poll.simps) (auto simp: observe_def)
  finally show ?thesis .
qed

lemma poll_absent:
  assumes "k < 150" "\<forall>i<k. waiting faults store jid start i"
    "observe faults store jid start k = Inr None"
  shows "poll faults store jid start start None 0 =
           (Inl (HTTPException 404 ''Job not found''), Suc k)"
proof -
  have "poll faults store jid start start None 0 =
      poll faults store jid start (start + 2 * k) (seen faults store jid start k) k"
    using assms by (intro poll_waiting) auto
  also have "\<dots> = (Inl (HTTPException 404 ''Job not found''), Suc k)"
    using assms by (subst poll.simps) (auto simp: observe_def)
  finally show ?thesis .
qed

lemma poll_window:
  assumes "\<forall>i<150. waiting faults store jid start i"
  shows "poll faults store jid start start None 0 =
           (Inr (seen faults store jid start 150), 150)"
proof -
  have "poll faults store jid start start None 0 =
      poll faults store jid start (start + 2 * 150) (seen faults store jid start 150) 150"
    using assms by (intro poll_waiting) auto
  also have "\<dots> = (Inr (seen faults store jid start 150), 150)"
    by (subst poll.simps) auto
  finally show ?thesis .
qed

lemma poll_never_empty:
  "now - start < 300 \<or> result \<noteq> None \<Longrightarrow>
   fst (poll faults store jid start now result reads) \<noteq> Inr None"
proof (induction faults store jid start now result reads rule: poll.induct)
  case (1 faults store jid start now result reads)
  show ?case
    using 1 by (subst poll.simps) (auto split: sum.splits option.splits)
qed

lemma poll_errors:
  "fst (poll faults store jid start now result reads) = Inl (HTTPException code detail) \<Longrightarrow>
   code = 500 \<or> code = 404"
proof (induction faults store jid start now result reads rule: poll.induct)
  case (1 faults store jid start now result reads)
  from "1.prems" show ?case
    by (subst (asm) poll.simps) (auto split: sum.splits option.splits if_splits dest: "1.IH")
qed

lemma seen_last:
  "waiting faults store jid start k \<Longrightarrow>
   \<exists>r. observe faults store jid start k = Inr (Some r) \<and> \<not> terminal (status r) \<and>
       seen faults store jid start (Suc k) = Some r"
  by (auto simp: waiting_def seen_def split: sum.splits option.splits)

lemma progress_terminal:
  "terminal (status r) \<Longrightarrow>
   progress_of (status r) =
     (if status r = COMPLETED then ''Processing complete!'' else ''Processing failed'')"
  by (cases "status r") (simp_all add: terminal_def)

lemma progress_waiting:
  "\<not> terminal (status r) \<Longrightarrow>
   progress_of (status r) =
     (if status r = PENDING then ''Waiting in queue...''
      else ''Processing document... This may take several minutes for large PDFs.'')"
  by (cases "status r") (simp_all add: terminal_def)

text \<open>
  C5. For a job id that passes the validation the query reads the status store every
  two seconds, at most 150 times in its 300 seconds. The first read that finds a
  terminal record ends the query, and no further read is made; the first read that
  finds no record ends it with not-found (404); when all 150 reads found a record that
  is not terminal, the query ends as a normal response too. A normal response carries
  the fields of the record of the last read (job id, file name, parser, status,
  content, summary, error) and the progress sentence of its status. The timeout signal
  (408) is never the answer: the first read always takes place, and a read either
  finds a record, or ends the query with 404, or fails (500).
\<close>

theorem status_query_outcomes:
  assumes "jid \<noteq> []" and "py_strip jid \<noteq> []" and "uuid_UUID_ok jid"
  shows
    "(\<forall>k r. k < 150 \<and> (\<forall>i<k. waiting faults store jid start i) \<and>
            observe faults store jid start k = Inr (Some r) \<and> terminal (status r) \<longrightarrow>
            get_job_status faults store start jid =
              (Inr \<lparr>resp_job_id = job_id r, resp_filename = filename r,
                     resp_parser = parser r, resp_status = status r,
                     resp_content = content r, resp_summary = summary r,
                     resp_error = error r,
                     resp_progress =
                       Some (if status r = COMPLETED then ''Processing complete!''
                             else ''Processing failed'')\<rparr>, Suc k)) \<and>
     (\<forall>k. k < 150 \<and> (\<forall>i<k. waiting faults store jid start i) \<and>
          observe faults store jid start k = Inr None \<longrightarrow>
          get_job_status faults store start jid
            = (Inl (HTTPException 404 ''Job not found''), Suc k)) \<and>
     ((\<forall>i<150. waiting faults store jid start i) \<longrightarrow>
        (\<exists>r. observe faults store jid start 149 = Inr (Some r) \<and> \<not> terminal (status r) \<and>
             get_job_status faults store start jid =
               (Inr \<lparr>resp_job_id = job_id r, resp_filename = filename r,
                      resp_parser = parser r, resp_status = status r,
                      resp_content = content r, resp_summary = summary r,
                      resp_error = error r,
                      resp_progress =
                        Some (if status r = PENDING then ''Waiting in queue...''
                              else ''Processing document... This may take several minutes for large PDFs.'')\<rparr>,
                150))) \<and>
     (\<forall>detail. fst (get_job_status faults store start jid)
                 \<noteq> Inl (HTTPException 408 detail))"
proof (intro conjI allI impI)
  fix k r
  assume a: "k < 150 \<and> (\<forall>i<k. waiting faults store jid start i) \<and>
          observe faults store jid start k = Inr (Some r) \<and> terminal (status r)"
  then have "poll faults store jid start start None 0 = (Inr (Some r), Suc k)"
    by (intro poll_terminal) auto
  with assms a show "get_job_status faults store start jid =
      (Inr \<lparr>resp_job_id = job_id r, resp_filename = filename r,
             resp_parser = parser r, resp_status = status r,
             resp_content = content r, resp_summary = summary r,
             resp_error = error r,
             resp_progress =
               Some (if status r = COMPLETED then ''Processing complete!''
                     else ''Processing failed'')\<rparr>, Suc k)"
    by (simp add: get_job_status_def response_of_def progress_terminal)
next
  fix k
  assume "k < 150 \<and> (\<forall>i<k. waiting faults store jid start i) \<and>
          observe faults store jid start k = Inr None"
  then have "poll faults store jid start start None 0 =
      (Inl (HTTPException 404 ''Job not found''), Suc k)"
    by (intro poll_absent) auto
  with assms show "get_job_status faults store start jid
      = (Inl (HTTPException 404 ''Job not found''), Suc k)"
    by (simp add: get_job_status_def)
next
  assume w: "\<forall>i<150. waiting faults store jid start i"
  then have p: "poll faults store jid start start None 0 =
      (Inr (seen faults store jid start 150), 150)"
    by (rule poll_window)
  from w have "waiting faults store jid start 149" by simp
  from seen_last [OF this] obtain r where
    r: "observe faults store jid start 149 = Inr (Some r)" "\<not> terminal (status r)"
       "seen faults store jid start 150 = Some r"
    by auto
  with p assms have "get_job_status faults store start jid =
      (Inr \<lparr>resp_job_id = job_id r, resp_filename = filename r,
             resp_parser = parser r, resp_status = status r,
             resp_content = content r, resp_summary = summary r,
             resp_error = error r,
             resp_progress =
               Some (if status r = PENDING then ''Waiting in queue...''
                     else ''Processing document... This may take several minutes for large PDFs.'')\<rparr>,
       150)"
    by (simp add: get_job_status_def response_of_def progress_waiting)
  with r show "\<exists>r. observe faults store jid start 149 = Inr (Some r) \<and>
      \<not> terminal (status r) \<and>
      get_job_status faults store start jid =
        (Inr \<lparr>resp_job_id = job_id r, resp_filename = filename r,
               resp_parser = parser r, resp_status = status r,
               resp_content = content r, resp_summary = summary r,
               resp_error = error r,
               resp_progress =
                 Some (if status r = PENDING then ''Waiting in queue...''
                       else ''Processing document... This may take several minutes for large PDFs.'')\<rparr>,
         150)"
    by blast
next
  fix detail
  have ne: "fst (poll faults store jid start start None 0) \<noteq> Inr None"
    by (rule poll_never_empty) simp
  have er: "fst (poll faults store jid start start None 0) \<noteq> Inl (HTTPException 408 detail)"
    using poll_errors [of faults store jid start start None 0 408 detail] by auto
  show "fst (get_job_status faults store start jid) \<noteq> Inl (HTTPException 408 detail)"
    using assms ne er
    by (cases "poll faults store jid start start None 0")
       (auto simp: get_job_status_def split: sum.splits option.splits)
qed

lemma sample_done_get:
  "t < 3603 \<Longrightarrow> get_result None t sample_job sample_done = Inr (Some sample_completed)"
  by (simp add: sample_done_def sample_completed_def process_message_def process_try_def
      Let_def sample_entry_fields ParserType_of_def format_opt_def sample_work_def
      sample_queued_get sample_queued_pdf get_result_written ttl_def
      pypdf_answering sample_pending_def)

theorem status_query_outcomes_witness:
  "uuid_UUID_ok sample_job \<and>
   get_job_status (\<lambda>t. None)
       (\<lambda>t. if t < 4 then sample_queued else sample_done) 0 sample_job
     = (Inr \<lparr>resp_job_id = sample_job, resp_filename = ''a.pdf'', resp_parser = PYPDF,
              resp_status = COMPLETED, resp_content = Some ''## Page 1 Hello'',
              resp_summary = Some ''Document is too short to summarize effectively.'',
              resp_error = None, resp_progress = Some ''Processing complete!''\<rparr>, 3) \<and>
   get_job_status (\<lambda>t. None) (\<lambda>t. empty_redis) 0 sample_job
     = (Inl (HTTPException 404 ''Job not found''), 1) \<and>
   get_job_status (\<lambda>t. None) (\<lambda>t. sample_queued) 0 sample_job
     = (Inr \<lparr>resp_job_id = sample_job, resp_filename = ''a.pdf'', resp_parser = PYPDF,
              resp_status = PENDING, resp_content = None, resp_summary = None,
              resp_error = None, resp_progress = Some ''Waiting in queue...''\<rparr>, 150)"
proof -
  let ?none = "\<lambda>t::nat. None :: string option"
  let ?a = "\<lambda>t::nat. if t < 4 then sample_queued else sample_done"
  let ?b = "\<lambda>t::nat. empty_redis"
  let ?c = "\<lambda>t::nat. sample_queued"
  note thm_a = status_query_outcomes
    [where jid = sample_job and faults = ?none and store = ?a and start = 0,
     OF sample_ids(1-3)]
  note thm_b = status_query_outcomes
    [where jid = sample_job and faults = ?none and store = ?b and start = 0,
     OF sample_ids(1-3)]
  note thm_c = status_query_outcomes
    [where jid = sample_job and faults = ?none and store = ?c and start = 0,
     OF sample_ids(1-3)]
  have a0: "\<forall>i<2. waiting ?none ?a sample_job 0 i"
    by (auto simp: waiting_def observe_def sample_queued_get terminal_def sample_pending_def)
  have a2: "observe ?none ?a sample_job 0 2 = Inr (Some sample_completed)"
    by (simp add: observe_def sample_done_get)
  have at: "terminal (status sample_completed)"
    by (simp add: terminal_def sample_completed_def)
  have "(2::nat) < 150 \<and> (\<forall>i<2. waiting ?none ?a sample_job 0 i) \<and>
      observe ?none ?a sample_job 0 2 = Inr (Some sample_completed) \<and>
      terminal (status sample_completed)"
    using a0 a2 at by simp
  with thm_a [THEN conjunct1, rule_format, of 2 sample_completed]
  have ra: "get_job_status ?none ?a 0 sample_job
      = (Inr \<lparr>resp_job_id = sample_job, resp_filename = ''a.pdf'', resp_parser = PYPDF,
              resp_status = COMPLETED, resp_content = Some ''## Page 1 Hello'',
              resp_summary = Some ''Document is too short to summarize effectively.'',
              resp_error = None, resp_progress = Some ''Processing complete!''\<rparr>, Suc 2)"
    by (simp add: sample_completed_def sample_pending_def)
  have b0: "observe ?none ?b sample_job 0 0 = Inr None"
    by (simp add: observe_def get_result_def live_def empty_redis_def)
  have "(0::nat) < 150 \<and> (\<forall>i<0. waiting ?none ?b sample_job 0 i) \<and>
      observe ?none ?b sample_job 0 0 = Inr None"
    using b0 by simp
  with thm_b [THEN conjunct2, THEN conjunct1, rule_format, of 0]
  have rb: "get_job_status ?none ?b 0 sample_job
      = (Inl (HTTPException 404 ''Job not found''), Suc 0)"
    by blast
  have c0: "\<forall>i<150. waiting ?none ?c sample_job 0 i"
    by (auto simp: waiting_def observe_def sample_queued_get terminal_def sample_pending_def)
  have c149: "observe ?none ?c sample_job 0 149 = Inr (Some sample_pending)"
    by (simp add: observe_def sample_queued_get)
  from thm_c [THEN conjunct2, THEN conjunct2, THEN conjunct1, THEN mp, OF c0] c149
  have rc: "get_job_status ?none ?c 0 sample_job
      = (Inr \<lparr>resp_job_id = sample_job, resp_filename = ''a.pdf'', resp_parser = PYPDF,
              resp_status = PENDING, resp_content = None, resp_summary = None,
              resp_error = None, resp_progress = Some ''Waiting in queue...''\<rparr>, 150)"
    by (auto simp: sample_pending_def)
  from ra rb rc sample_ids(3) show ?thesis
    by (simp add: numeral_3_eq_3)
qed

end
